theory Spec2Isabelle
  imports Complex_Main "HOL-Library.Char_ord" "HOL-Library.List_Lexorder"
begin

section \<open>JavaScript primitives used by the server\<close>

text \<open>
  Strings are byte strings (\<open>char list\<close>); the stored data and the identifiers of the
  API are ASCII.  Case conversion changes the ASCII letters only.  A JavaScript number is
  an exact rational or NaN (\<open>None\<close>): IEEE rounding and the infinities are outside
  the model, integers are unbounded.
\<close>

type_synonym num = "rat option"

definition is_ws :: "char \<Rightarrow> bool" where
  "is_ws c = (c \<in> set [CHR '' '', CHR 0x09, CHR 0x0A, CHR 0x0B, CHR 0x0C, CHR 0x0D])"

definition is_digit :: "char \<Rightarrow> bool" where
  "is_digit c = (48 \<le> (of_char c :: int) \<and> (of_char c :: int) \<le> 57)"

definition digit_val :: "char \<Rightarrow> int" where
  "digit_val c = of_char c - 48"

definition digit_char :: "int \<Rightarrow> char" where
  "digit_char d = char_of (48 + d)"

text \<open>The value of a hexadecimal digit, \<open>None\<close> for any other character.\<close>

definition hex_val :: "char \<Rightarrow> int option" where
  "hex_val c =
     (let n = (of_char c :: int) in
      if 48 \<le> n \<and> n \<le> 57 then Some (n - 48)
      else if 97 \<le> n \<and> n \<le> 102 then Some (n - 87)
      else if 65 \<le> n \<and> n \<le> 70 then Some (n - 55)
      else None)"

definition radix_digit :: "int \<Rightarrow> char \<Rightarrow> bool" where
  "radix_digit r c = (case hex_val c of None \<Rightarrow> False | Some v \<Rightarrow> v < r)"

definition radix_val :: "int \<Rightarrow> string \<Rightarrow> int" where
  "radix_val r s = foldl (\<lambda>acc c. r * acc + (case hex_val c of Some v \<Rightarrow> v | None \<Rightarrow> 0)) 0 s"

definition digits_val :: "string \<Rightarrow> int" where
  "digits_val s = foldl (\<lambda>acc c. 10 * acc + digit_val c) 0 s"

definition toUpperCase :: "string \<Rightarrow> string" where
  "toUpperCase s =
     map (\<lambda>c. if 97 \<le> (of_char c :: int) \<and> (of_char c :: int) \<le> 122
                then char_of ((of_char c :: int) - 32) else c) s"

definition toLowerCase :: "string \<Rightarrow> string" where
  "toLowerCase s =
     map (\<lambda>c. if 65 \<le> (of_char c :: int) \<and> (of_char c :: int) \<le> 90
                then char_of ((of_char c :: int) + 32) else c) s"

text \<open>
  \<open>parseInt(string)\<close> with no radix argument: leading white space is skipped, a sign
  is read, a \<open>0x\<close>/\<open>0X\<close> prefix selects radix 16, and the longest prefix of digits is
  the value; no digit gives NaN.
\<close>

definition parseInt :: "string \<Rightarrow> int option" where
  "parseInt input =
     (let s = dropWhile is_ws input;
          sign = (if s \<noteq> [] \<and> hd s = CHR ''-'' then - 1 else 1 :: int);
          s = (if s \<noteq> [] \<and> (hd s = CHR ''+'' \<or> hd s = CHR ''-'') then tl s else s);
          hex = (take 2 s = ''0x'' \<or> take 2 s = ''0X'');
          r = (if hex then 16 else 10 :: int);
          s = (if hex then drop 2 s else s);
          z = takeWhile (radix_digit r) s
      in if z = [] then None else Some (sign * radix_val r z))"

text \<open>
  The longest prefix of a string that is a decimal literal (sign, digits, fraction,
  exponent), with its value and the rest of the string.
\<close>

definition parse_exponent :: "string \<Rightarrow> int \<times> string" where
  "parse_exponent s =
     (if s \<noteq> [] \<and> (hd s = CHR ''e'' \<or> hd s = CHR ''E'') then
        (let t = tl s;
             neg = (t \<noteq> [] \<and> hd t = CHR ''-'');
             t = (if t \<noteq> [] \<and> (hd t = CHR ''+'' \<or> hd t = CHR ''-'') then tl t else t);
             ds = takeWhile is_digit t
         in if ds = [] then (0, s)
            else ((if neg then - digits_val ds else digits_val ds),
                  dropWhile is_digit t))
      else (0, s))"

definition pow10 :: "int \<Rightarrow> rat" where
  "pow10 e = (if 0 \<le> e then 10 ^ nat e else 1 / 10 ^ nat (- e))"

definition parse_decimal :: "string \<Rightarrow> (rat \<times> string) option" where
  "parse_decimal s0 =
     (let neg = (s0 \<noteq> [] \<and> hd s0 = CHR ''-'');
          s = (if s0 \<noteq> [] \<and> (hd s0 = CHR ''+'' \<or> hd s0 = CHR ''-'') then tl s0 else s0);
          ip = takeWhile is_digit s;
          s = dropWhile is_digit s;
          dot = (s \<noteq> [] \<and> hd s = CHR ''.'');
          fp = (if dot then takeWhile is_digit (tl s) else []);
          s = (if dot \<and> (ip \<noteq> [] \<or> fp \<noteq> []) then dropWhile is_digit (tl s) else s)
      in if ip = [] \<and> fp = [] then None
         else (let (e, rest) = parse_exponent s;
                   m = (of_int (digits_val ip) + of_int (digits_val fp) / 10 ^ length fp) * pow10 e
               in Some (if neg then - m else m, rest)))"

definition parseFloat :: "string \<Rightarrow> num" where
  "parseFloat input = map_option fst (parse_decimal (dropWhile is_ws input))"

text \<open>
  \<open>ToNumber\<close> of a string: white space is trimmed at both ends, the empty string is 0,
  and the whole rest must be a decimal literal (the stored strings are decimal; the
  \<open>0x\<close>, \<open>0o\<close>, \<open>0b\<close> and \<open>Infinity\<close> literals are read as NaN here).
\<close>

definition string_to_number :: "string \<Rightarrow> num" where
  "string_to_number input =
     (let s = rev (dropWhile is_ws (rev (dropWhile is_ws input)))
      in if s = [] then Some 0
         else (case parse_decimal s of
                 Some (v, []) \<Rightarrow> Some v
               | _ \<Rightarrow> None))"

text \<open>The decimal digits of a non-negative integer, as \<open>Number.prototype.toString\<close>
  prints them.\<close>

function int_digits :: "int \<Rightarrow> string" where
  "int_digits n = (if n < 10 then [digit_char n] else int_digits (n div 10) @ [digit_char (n mod 10)])"
  by pat_completeness auto
termination
  by (relation "measure nat") auto

declare int_digits.simps [simp del]

definition int_to_string :: "int \<Rightarrow> string" where
  "int_to_string i = (if i < 0 then CHR ''-'' # int_digits (- i) else int_digits i)"

text \<open>
  \<open>Number.prototype.toFixed(f)\<close> for \<open>|x| < 10^21\<close>: \<open>n\<close> is the integer nearest to
  \<open>x * 10^f\<close> (the larger one on a tie), printed with \<open>f\<close> digits after the point.
\<close>

definition toFixed :: "num \<Rightarrow> nat \<Rightarrow> string" where
  "toFixed v f =
     (case v of
        None \<Rightarrow> ''NaN''
      | Some x0 \<Rightarrow>
          (let s = (if x0 < 0 then ''-'' else '''');
               x = \<bar>x0\<bar>;
               n = \<lfloor>x * 10 ^ f + 1 / 2\<rfloor>;
               m = int_digits n;
               m = (if f \<noteq> 0 then
                      (let k = length m;
                           m = (if k \<le> f then replicate (f + 1 - k) (CHR ''0'') @ m else m);
                           k = length m
                       in take (k - f) m @ ''.'' @ drop (k - f) m)
                    else m)
           in s @ m))"

section \<open>Values, query parameters and comparison\<close>

text \<open>
  A value read off a record by a dynamic key.  \<open>JObj\<close> stands for a plain nested
  object (a node's \<open>metadata\<close>), whose primitive value is the string
  \<open>[object Object]\<close>.
\<close>

datatype jsval = JUndefined | JNum num | JStr string | JObj

text \<open>
  A value of \<open>req.query\<close> as the query parser builds it: a string, an array
  (a repeated parameter) or a nested object.  An absent parameter is \<open>None\<close>.
\<close>

datatype qval = QStr string | QArr "qval list" | QObj

type_synonym query = "string \<Rightarrow> qval option"

fun join_comma :: "string list \<Rightarrow> string" where
  "join_comma [] = []"
| "join_comma [s] = s"
| "join_comma (s # t # ss) = s @ '','' @ join_comma (t # ss)"

fun qval_to_string :: "qval \<Rightarrow> string" where
  "qval_to_string (QStr s) = s"
| "qval_to_string (QArr vs) = join_comma (map qval_to_string vs)"
| "qval_to_string QObj = ''[object Object]''"

definition to_string :: "qval option \<Rightarrow> string" where
  "to_string v = (case v of None \<Rightarrow> ''undefined'' | Some x \<Rightarrow> qval_to_string x)"

definition truthy :: "qval option \<Rightarrow> bool" where
  "truthy v = (case v of None \<Rightarrow> False | Some (QStr s) \<Rightarrow> s \<noteq> [] | Some _ \<Rightarrow> True)"

text \<open>\<open>parseInt(v) || dflt\<close>: NaN and 0 are falsy.\<close>

definition or_default :: "int option \<Rightarrow> int \<Rightarrow> int" where
  "or_default v dflt = (case v of None \<Rightarrow> dflt | Some n \<Rightarrow> if n = 0 then dflt else n)"

definition page_param :: "query \<Rightarrow> int" where
  "page_param q = max 1 (or_default (parseInt (to_string (q ''page''))) 1)"

definition limit_param :: "query \<Rightarrow> int" where
  "limit_param q = min 100 (max 1 (or_default (parseInt (to_string (q ''limit''))) 20))"

text \<open>
  A method call on a query value: \<open>v.toUpperCase()\<close> is a TypeError (\<open>None\<close>)
  unless \<open>v\<close> is a string.
\<close>

definition call_toUpperCase :: "qval option \<Rightarrow> string option" where
  "call_toUpperCase v = (case v of Some (QStr s) \<Rightarrow> Some (toUpperCase s) | _ \<Rightarrow> None)"

definition call_toLowerCase :: "qval option \<Rightarrow> string option" where
  "call_toLowerCase v = (case v of Some (QStr s) \<Rightarrow> Some (toLowerCase s) | _ \<Rightarrow> None)"

text \<open>Comparison of numbers: false when either side is NaN.\<close>

definition num_lt :: "num \<Rightarrow> num \<Rightarrow> bool" where
  "num_lt a b = (case (a, b) of (Some x, Some y) \<Rightarrow> x < y | _ \<Rightarrow> False)"

definition num_le :: "num \<Rightarrow> num \<Rightarrow> bool" where
  "num_le a b = (case (a, b) of (Some x, Some y) \<Rightarrow> x \<le> y | _ \<Rightarrow> False)"

definition to_number :: "jsval \<Rightarrow> num" where
  "to_number v =
     (case v of JUndefined \<Rightarrow> None | JNum x \<Rightarrow> x | JStr s \<Rightarrow> string_to_number s
      | JObj \<Rightarrow> string_to_number ''[object Object]'')"

text \<open>The relational operator \<open>a < b\<close>: two strings compare as strings, anything else
  as numbers.\<close>

definition js_lt :: "jsval \<Rightarrow> jsval \<Rightarrow> bool" where
  "js_lt a b =
     (let pa = (case a of JObj \<Rightarrow> JStr ''[object Object]'' | _ \<Rightarrow> a);
          pb = (case b of JObj \<Rightarrow> JStr ''[object Object]'' | _ \<Rightarrow> b)
      in case (pa, pb) of
           (JStr s, JStr t) \<Rightarrow> s < t
         | _ \<Rightarrow> num_lt (to_number pa) (to_number pb))"

definition js_gt :: "jsval \<Rightarrow> jsval \<Rightarrow> bool" where
  "js_gt a b = js_lt b a"

text \<open>\<open>parseFloat(v)\<close> of a value: of a number it is the number itself.\<close>

definition parseFloat_val :: "jsval \<Rightarrow> num" where
  "parseFloat_val v =
     (case v of JStr s \<Rightarrow> parseFloat s | JNum x \<Rightarrow> x | JUndefined \<Rightarrow> parseFloat ''undefined''
      | JObj \<Rightarrow> parseFloat ''[object Object]'')"

text \<open>
  The comparator of the node, staker and transaction lists: a numeric-looking string
  on the left turns both sides into floats.
\<close>

definition compare_parsed :: "qval option \<Rightarrow> jsval \<Rightarrow> jsval \<Rightarrow> int" where
  "compare_parsed sortOrder a b =
     (let numeric = (case a of JStr s \<Rightarrow> parseFloat s \<noteq> None | _ \<Rightarrow> False);
          aVal = (if numeric then JNum (parseFloat_val a) else a);
          bVal = (if numeric then JNum (parseFloat_val b) else b)
      in if sortOrder = Some (QStr ''asc'') then (if js_gt aVal bVal then 1 else - 1)
         else (if js_lt aVal bVal then 1 else - 1))"

text \<open>The comparator of the health-record list: the values are compared as they are.\<close>

definition compare_raw :: "qval option \<Rightarrow> jsval \<Rightarrow> jsval \<Rightarrow> int" where
  "compare_raw sortOrder aVal bVal =
     (if sortOrder = Some (QStr ''asc'') then (if js_gt aVal bVal then 1 else - 1)
      else (if js_lt aVal bVal then 1 else - 1))"

text \<open>
  \<open>Array.prototype.sort(comparefn)\<close> as an insertion sort: each element in turn moves
  left past the elements \<open>y\<close> with \<open>comparefn(y, element) > 0\<close>.  The sorted prefix is
  kept reversed while the array is traversed.  ECMAScript leaves the order of elements
  that the comparator does not order consistently to the implementation; the model fixes
  this one.
\<close>

fun sort_insert :: "('a \<Rightarrow> 'a \<Rightarrow> int) \<Rightarrow> 'a \<Rightarrow> 'a list \<Rightarrow> 'a list" where
  "sort_insert c x [] = [x]"
| "sort_insert c x (y # ys) = (if c y x > 0 then y # sort_insert c x ys else x # y # ys)"

definition js_sort :: "('a \<Rightarrow> 'a \<Rightarrow> int) \<Rightarrow> 'a list \<Rightarrow> 'a list" where
  "js_sort c xs = rev (foldl (\<lambda>acc x. sort_insert c x acc) [] xs)"

text \<open>\<open>Array.prototype.slice(start, end)\<close> on integer arguments.\<close>

definition js_slice :: "int \<Rightarrow> int \<Rightarrow> 'a list \<Rightarrow> 'a list" where
  "js_slice s e xs =
     (let len = int (length xs);
          k = (if s < 0 then max (len + s) 0 else min s len);
          f = (if e < 0 then max (len + e) 0 else min e len)
      in take (nat (f - k)) (drop (nat k) xs))"

text \<open>A filter whose callback may throw: the first throw aborts the whole call.\<close>

fun filter_throwing :: "('a \<Rightarrow> bool option) \<Rightarrow> 'a list \<Rightarrow> 'a list option" where
  "filter_throwing p [] = Some []"
| "filter_throwing p (x # xs) =
     (case p x of
        None \<Rightarrow> None
      | Some b \<Rightarrow> (case filter_throwing p xs of
                     None \<Rightarrow> None
                   | Some ys \<Rightarrow> Some (if b then x # ys else ys)))"

section \<open>The five collections\<close>

text \<open>
  The records of \<open>data.js\<close> as \<open>generator.js\<close> writes them.  A field keeps its
  source name behind the prefix of its record (\<open>n_\<close> node, \<open>s_\<close> staker,
  \<open>hr_\<close> health record, \<open>e_\<close> epoch, \<open>tx_\<close> transaction).  Amounts are the
  fixed-decimal strings \<open>toFixed\<close> printed; counts and timestamps are integers.
\<close>

record node_metadata =
  nm_version :: string
  nm_hardware :: string
  nm_bandwidth :: int

record node =
  n_nodeId :: string
  n_operatorAddress :: string
  n_nodeType :: string
  n_region :: string
  n_status :: string
  n_stakedAmount :: string
  n_totalRewardsEarned :: string
  n_uptime :: string
  n_validationsPerformed :: int
  n_validationsSuccessful :: int
  n_validationsFailed :: int
  n_slashingEvents :: int
  n_registeredAt :: int
  n_lastHeartbeat :: int
  n_metadata :: node_metadata

record staker =
  s_stakerId :: string
  s_walletAddress :: string
  s_stakedAmount :: string
  s_pendingRewards :: string
  s_claimedRewards :: string
  s_lockPeriod :: int
  s_unlockTime :: int
  s_stakingMultiplier :: rat
  s_delegatedTo :: string

text \<open>A health record's \<open>value\<close> is a string for \<open>BLOOD_OXYGEN\<close> and a number otherwise.\<close>

record health_record =
  hr_recordId :: string
  hr_userAddress :: string
  hr_dataType :: string
  hr_value :: jsval
  hr_unit :: string
  hr_deviceType :: string
  hr_timestamp :: int
  hr_validatedBy :: string
  hr_validationStatus :: string
  hr_rewardEarned :: string

record node_reward =
  nr_nodeId :: string
  nr_reward :: string
  nr_validations :: int

text \<open>\<open>e_nodeRewards\<close> is \<open>None\<close> when the property is missing.\<close>

record epoch =
  e_epochNumber :: int
  e_startTime :: int
  e_endTime :: int
  e_totalRewardsPool :: string
  e_totalValidations :: int
  e_activeNodes :: int
  e_activeStakers :: int
  e_nodeRewards :: "node_reward list option"

record transaction =
  tx_txHash :: string
  tx_txType :: string
  tx_from :: string
  tx_to :: string
  tx_amount :: string
  tx_gasUsed :: int
  tx_gasPrice :: int
  tx_timestamp :: int
  tx_blockNumber :: int
  tx_status :: string
  tx_nonce :: int

record db =
  generatedAt :: string
  version :: string
  nodes :: "node list"
  stakers :: "staker list"
  healthRecords :: "health_record list"
  epochs :: "epoch list"
  transactions :: "transaction list"

text \<open>
  \<open>record[key]\<close> for a dynamic key.  A key that names no own property gives
  \<open>undefined\<close>; so does, in the model, a key inherited from \<open>Object.prototype\<close>
  (there both records yield the same function, and every comparison of the two is false
  as it is for \<open>undefined\<close>).
\<close>

definition int_val :: "int \<Rightarrow> jsval" where
  "int_val i = JNum (Some (of_int i))"

definition node_field :: "node \<Rightarrow> string \<Rightarrow> jsval" where
  "node_field n k =
     (if k = ''nodeId'' then JStr (n_nodeId n)
      else if k = ''operatorAddress'' then JStr (n_operatorAddress n)
      else if k = ''nodeType'' then JStr (n_nodeType n)
      else if k = ''region'' then JStr (n_region n)
      else if k = ''status'' then JStr (n_status n)
      else if k = ''stakedAmount'' then JStr (n_stakedAmount n)
      else if k = ''totalRewardsEarned'' then JStr (n_totalRewardsEarned n)
      else if k = ''uptime'' then JStr (n_uptime n)
      else if k = ''validationsPerformed'' then int_val (n_validationsPerformed n)
      else if k = ''validationsSuccessful'' then int_val (n_validationsSuccessful n)
      else if k = ''validationsFailed'' then int_val (n_validationsFailed n)
      else if k = ''slashingEvents'' then int_val (n_slashingEvents n)
      else if k = ''registeredAt'' then int_val (n_registeredAt n)
      else if k = ''lastHeartbeat'' then int_val (n_lastHeartbeat n)
      else if k = ''metadata'' then JObj
      else JUndefined)"

definition staker_field :: "staker \<Rightarrow> string \<Rightarrow> jsval" where
  "staker_field s k =
     (if k = ''stakerId'' then JStr (s_stakerId s)
      else if k = ''walletAddress'' then JStr (s_walletAddress s)
      else if k = ''stakedAmount'' then JStr (s_stakedAmount s)
      else if k = ''pendingRewards'' then JStr (s_pendingRewards s)
      else if k = ''claimedRewards'' then JStr (s_claimedRewards s)
      else if k = ''lockPeriod'' then int_val (s_lockPeriod s)
      else if k = ''unlockTime'' then int_val (s_unlockTime s)
      else if k = ''stakingMultiplier'' then JNum (Some (s_stakingMultiplier s))
      else if k = ''delegatedTo'' then JStr (s_delegatedTo s)
      else JUndefined)"

definition health_record_field :: "health_record \<Rightarrow> string \<Rightarrow> jsval" where
  "health_record_field r k =
     (if k = ''recordId'' then JStr (hr_recordId r)
      else if k = ''userAddress'' then JStr (hr_userAddress r)
      else if k = ''dataType'' then JStr (hr_dataType r)
      else if k = ''value'' then hr_value r
      else if k = ''unit'' then JStr (hr_unit r)
      else if k = ''deviceType'' then JStr (hr_deviceType r)
      else if k = ''timestamp'' then int_val (hr_timestamp r)
      else if k = ''validatedBy'' then JStr (hr_validatedBy r)
      else if k = ''validationStatus'' then JStr (hr_validationStatus r)
      else if k = ''rewardEarned'' then JStr (hr_rewardEarned r)
      else JUndefined)"

definition transaction_field :: "transaction \<Rightarrow> string \<Rightarrow> jsval" where
  "transaction_field t k =
     (if k = ''txHash'' then JStr (tx_txHash t)
      else if k = ''txType'' then JStr (tx_txType t)
      else if k = ''from'' then JStr (tx_from t)
      else if k = ''to'' then JStr (tx_to t)
      else if k = ''amount'' then JStr (tx_amount t)
      else if k = ''gasUsed'' then int_val (tx_gasUsed t)
      else if k = ''gasPrice'' then int_val (tx_gasPrice t)
      else if k = ''timestamp'' then int_val (tx_timestamp t)
      else if k = ''blockNumber'' then int_val (tx_blockNumber t)
      else if k = ''status'' then JStr (tx_status t)
      else if k = ''nonce'' then int_val (tx_nonce t)
      else JUndefined)"

section \<open>Arrays, the store and handlers\<close>

text \<open>
  The store is the record \<open>db\<close> of the five module-level arrays.  An array variable
  of a handler is a reference: \<open>Global\<close> to one of the stored arrays (its reader and
  its updater), or \<open>Local\<close> to an array the handler allocated, which it alone holds and
  which therefore travels with the variable.  \<open>sort\<close> and \<open>reverse\<close> work in place:
  on a \<open>Global\<close> reference they change the store.  A handler maps the store to a
  result and the store it leaves; \<open>None\<close> is a thrown exception.
\<close>

datatype 'a aref = Global "db \<Rightarrow> 'a list" "('a list \<Rightarrow> 'a list) \<Rightarrow> db \<Rightarrow> db" | Local "'a list"

type_synonym 'a js = "db \<Rightarrow> 'a option \<times> db"

definition js_return :: "'a \<Rightarrow> 'a js" where
  "js_return x = (\<lambda>d. (Some x, d))"

definition js_throw :: "'a js" where
  "js_throw = (\<lambda>d. (None, d))"

definition js_bind :: "'a js \<Rightarrow> ('a \<Rightarrow> 'b js) \<Rightarrow> 'b js" where
  "js_bind m f = (\<lambda>d. case m d of (None, d') \<Rightarrow> (None, d') | (Some x, d') \<Rightarrow> f x d')"

definition js_lift :: "'a option \<Rightarrow> 'a js" where
  "js_lift v = (case v of None \<Rightarrow> js_throw | Some x \<Rightarrow> js_return x)"

definition arr_get :: "'a aref \<Rightarrow> 'a list js" where
  "arr_get r = (\<lambda>d. (Some (case r of Global g u \<Rightarrow> g d | Local xs \<Rightarrow> xs), d))"

definition nodes_ref :: "node aref" where
  "nodes_ref = Global nodes nodes_update"

definition stakers_ref :: "staker aref" where
  "stakers_ref = Global stakers stakers_update"

definition healthRecords_ref :: "health_record aref" where
  "healthRecords_ref = Global healthRecords healthRecords_update"

definition epochs_ref :: "epoch aref" where
  "epochs_ref = Global epochs epochs_update"

definition transactions_ref :: "transaction aref" where
  "transactions_ref = Global transactions transactions_update"

text \<open>\<open>[...r]\<close>: a new array with the elements of \<open>r\<close>.\<close>

definition arr_spread :: "'a aref \<Rightarrow> 'a aref js" where
  "arr_spread r = js_bind (arr_get r) (\<lambda>xs. js_return (Local xs))"

text \<open>\<open>r.sort(c)\<close> sorts the array \<open>r\<close> refers to and returns \<open>r\<close>.\<close>

definition arr_sort :: "('a \<Rightarrow> 'a \<Rightarrow> int) \<Rightarrow> 'a aref \<Rightarrow> 'a aref js" where
  "arr_sort c r =
     (\<lambda>d. case r of
             Global g u \<Rightarrow> (Some r, u (js_sort c) d)
           | Local xs \<Rightarrow> (Some (Local (js_sort c xs)), d))"

definition arr_reverse :: "'a aref \<Rightarrow> 'a aref js" where
  "arr_reverse r =
     (\<lambda>d. case r of
             Global g u \<Rightarrow> (Some r, u rev d)
           | Local xs \<Rightarrow> (Some (Local (rev xs)), d))"

text \<open>\<open>filter\<close>, \<open>slice\<close> and \<open>map\<close> read \<open>r\<close> and return a new array.\<close>

definition arr_filter :: "('a \<Rightarrow> bool option) \<Rightarrow> 'a aref \<Rightarrow> 'a aref js" where
  "arr_filter p r = js_bind (arr_get r) (\<lambda>xs. js_lift (map_option Local (filter_throwing p xs)))"

definition arr_slice :: "int \<Rightarrow> int \<Rightarrow> 'a aref \<Rightarrow> 'a aref js" where
  "arr_slice s e r = js_bind (arr_get r) (\<lambda>xs. js_return (Local (js_slice s e xs)))"

definition arr_map :: "('a \<Rightarrow> 'b) \<Rightarrow> 'a aref \<Rightarrow> 'b aref js" where
  "arr_map f r = js_bind (arr_get r) (\<lambda>xs. js_return (Local (map f xs)))"

definition arr_length :: "'a aref \<Rightarrow> int js" where
  "arr_length r = js_bind (arr_get r) (\<lambda>xs. js_return (int (length xs)))"

text \<open>
  A response: the JSON body sent with status 200, or a status code with the body
  \<open>{error: message}\<close>.  \<open>try_catch\<close> is the handler's \<open>try { ... } catch\<close>.
\<close>

datatype 'a response = Ok 'a | Fail nat string

type_synonym 'a handler = "db \<Rightarrow> 'a response \<times> db"

definition try_catch :: "'a response js \<Rightarrow> 'a response \<Rightarrow> 'a handler" where
  "try_catch body caught = (\<lambda>d. case body d of (None, d') \<Rightarrow> (caught, d') | (Some r, d') \<Rightarrow> (r, d'))"

record pagination =
  p_page :: int
  p_limit :: int
  p_totalItems :: int
  p_totalPages :: int
  p_hasMore :: bool

record 'a page_response =
  data :: "'a list"
  pagination :: pagination

text \<open>The pagination block, the same in the five list handlers.\<close>

definition paginate :: "int \<Rightarrow> int \<Rightarrow> 'a aref \<Rightarrow> ('a aref \<times> pagination) js" where
  "paginate page limit filtered =
     js_bind (arr_length filtered) (\<lambda>totalItems.
     let totalPages = \<lceil>rat_of_int totalItems / rat_of_int limit\<rceil>;
         startIndex = (page - 1) * limit
     in js_bind (arr_slice startIndex (startIndex + limit) filtered) (\<lambda>paginated.
        js_return (paginated,
          \<lparr>p_page = page, p_limit = limit, p_totalItems = totalItems,
           p_totalPages = totalPages, p_hasMore = (page < totalPages)\<rparr>)))"

section \<open>List endpoints\<close>

definition num_ge :: "num \<Rightarrow> num \<Rightarrow> bool" where
  "num_ge a b = num_le b a"

definition int_num :: "int option \<Rightarrow> num" where
  "int_num v = map_option of_int v"

text \<open>\<open>GET /api/nodes\<close>\<close>

definition nodes_list :: "query \<Rightarrow> node page_response handler" where
  "nodes_list q =
     try_catch
       (let page = page_param q;
            limit = limit_param q;
            status = q ''status'';
            nodeType = q ''nodeType'';
            region = q ''region'';
            sortBy = q ''sortBy'';
            sortOrder = (case q ''sortOrder'' of None \<Rightarrow> Some (QStr ''desc'') | v \<Rightarrow> v)
        in js_bind (arr_spread nodes_ref) (\<lambda>filteredNodes.
           js_bind (if truthy status
                    then arr_filter (\<lambda>n. map_option (\<lambda>u. n_status n = u) (call_toUpperCase status))
                           filteredNodes
                    else js_return filteredNodes) (\<lambda>filteredNodes.
           js_bind (if truthy nodeType
                    then arr_filter (\<lambda>n. map_option (\<lambda>u. n_nodeType n = u) (call_toUpperCase nodeType))
                           filteredNodes
                    else js_return filteredNodes) (\<lambda>filteredNodes.
           js_bind (if truthy region
                    then arr_filter (\<lambda>n. map_option (\<lambda>u. n_region n = u) (call_toUpperCase region))
                           filteredNodes
                    else js_return filteredNodes) (\<lambda>filteredNodes.
           js_bind (if truthy sortBy
                    then arr_sort (\<lambda>a b. compare_parsed sortOrder
                                           (node_field a (to_string sortBy))
                                           (node_field b (to_string sortBy)))
                           filteredNodes
                    else js_return filteredNodes) (\<lambda>filteredNodes.
           js_bind (paginate page limit filteredNodes) (\<lambda>(paginatedNodes, pg).
           js_bind (arr_get paginatedNodes) (\<lambda>items.
           js_return (Ok \<lparr>data = items, pagination = pg\<rparr>)))))))))
       (Fail 500 ''Failed to fetch nodes'')"

text \<open>\<open>GET /api/stakers\<close>\<close>

definition stakers_list :: "query \<Rightarrow> staker page_response handler" where
  "stakers_list q =
     try_catch
       (let page = page_param q;
            limit = limit_param q;
            minStake = q ''minStake'';
            maxStake = q ''maxStake'';
            sortBy = q ''sortBy'';
            sortOrder = (case q ''sortOrder'' of None \<Rightarrow> Some (QStr ''desc'') | v \<Rightarrow> v)
        in js_bind (arr_spread stakers_ref) (\<lambda>filteredStakers.
           js_bind (if truthy minStake
                    then arr_filter (\<lambda>s. Some (num_ge (parseFloat (s_stakedAmount s))
                                                        (parseFloat (to_string minStake))))
                           filteredStakers
                    else js_return filteredStakers) (\<lambda>filteredStakers.
           js_bind (if truthy maxStake
                    then arr_filter (\<lambda>s. Some (num_le (parseFloat (s_stakedAmount s))
                                                        (parseFloat (to_string maxStake))))
                           filteredStakers
                    else js_return filteredStakers) (\<lambda>filteredStakers.
           js_bind (if truthy sortBy
                    then arr_sort (\<lambda>a b. compare_parsed sortOrder
                                           (staker_field a (to_string sortBy))
                                           (staker_field b (to_string sortBy)))
                           filteredStakers
                    else js_return filteredStakers) (\<lambda>filteredStakers.
           js_bind (paginate page limit filteredStakers) (\<lambda>(paginatedStakers, pg).
           js_bind (arr_get paginatedStakers) (\<lambda>items.
           js_return (Ok \<lparr>data = items, pagination = pg\<rparr>))))))))
       (Fail 500 ''Failed to fetch stakers'')"

text \<open>\<open>GET /api/transactions\<close>: \<open>sortBy\<close> defaults to \<open>timestamp\<close>, and the sort always runs.\<close>

definition transactions_list :: "query \<Rightarrow> transaction page_response handler" where
  "transactions_list q =
     try_catch
       (let page = page_param q;
            limit = limit_param q;
            txType = q ''txType'';
            status = q ''status'';
            address = q ''address'';
            startDate = q ''startDate'';
            endDate = q ''endDate'';
            sortBy = (case q ''sortBy'' of None \<Rightarrow> Some (QStr ''timestamp'') | v \<Rightarrow> v);
            sortOrder = (case q ''sortOrder'' of None \<Rightarrow> Some (QStr ''desc'') | v \<Rightarrow> v)
        in js_bind (arr_spread transactions_ref) (\<lambda>filteredTxs.
           js_bind (if truthy txType
                    then arr_filter (\<lambda>tx. map_option (\<lambda>u. tx_txType tx = u) (call_toUpperCase txType))
                           filteredTxs
                    else js_return filteredTxs) (\<lambda>filteredTxs.
           js_bind (if truthy status
                    then arr_filter (\<lambda>tx. map_option (\<lambda>u. tx_status tx = u) (call_toUpperCase status))
                           filteredTxs
                    else js_return filteredTxs) (\<lambda>filteredTxs.
           js_bind (if truthy address
                    then js_bind (js_lift (call_toLowerCase address)) (\<lambda>addr.
                           arr_filter (\<lambda>tx. Some (toLowerCase (tx_from tx) = addr
                                                    \<or> toLowerCase (tx_to tx) = addr))
                             filteredTxs)
                    else js_return filteredTxs) (\<lambda>filteredTxs.
           js_bind (if truthy startDate
                    then arr_filter (\<lambda>tx. Some (num_ge (Some (of_int (tx_timestamp tx)))
                                                         (int_num (parseInt (to_string startDate)))))
                           filteredTxs
                    else js_return filteredTxs) (\<lambda>filteredTxs.
           js_bind (if truthy endDate
                    then arr_filter (\<lambda>tx. Some (num_le (Some (of_int (tx_timestamp tx)))
                                                         (int_num (parseInt (to_string endDate)))))
                           filteredTxs
                    else js_return filteredTxs) (\<lambda>filteredTxs.
           js_bind (arr_sort (\<lambda>a b. compare_parsed sortOrder
                                      (transaction_field a (to_string sortBy))
                                      (transaction_field b (to_string sortBy)))
                      filteredTxs) (\<lambda>filteredTxs.
           js_bind (paginate page limit filteredTxs) (\<lambda>(paginatedTxs, pg).
           js_bind (arr_get paginatedTxs) (\<lambda>items.
           js_return (Ok \<lparr>data = items, pagination = pg\<rparr>)))))))))))
       (Fail 500 ''Failed to fetch transactions'')"

text \<open>\<open>GET /api/health-records\<close>: the comparator does not parse the values.\<close>

definition health_records_list :: "query \<Rightarrow> health_record page_response handler" where
  "health_records_list q =
     try_catch
       (let page = page_param q;
            limit = limit_param q;
            dataType = q ''dataType'';
            deviceType = q ''deviceType'';
            validationStatus = q ''validationStatus'';
            userAddress = q ''userAddress'';
            startDate = q ''startDate'';
            endDate = q ''endDate'';
            sortBy = (case q ''sortBy'' of None \<Rightarrow> Some (QStr ''timestamp'') | v \<Rightarrow> v);
            sortOrder = (case q ''sortOrder'' of None \<Rightarrow> Some (QStr ''desc'') | v \<Rightarrow> v)
        in js_bind (arr_spread healthRecords_ref) (\<lambda>filteredRecords.
           js_bind (if truthy dataType
                    then arr_filter (\<lambda>r. map_option (\<lambda>u. hr_dataType r = u) (call_toUpperCase dataType))
                           filteredRecords
                    else js_return filteredRecords) (\<lambda>filteredRecords.
           js_bind (if truthy deviceType
                    then arr_filter (\<lambda>r. map_option (\<lambda>u. hr_deviceType r = u)
                                           (call_toUpperCase deviceType))
                           filteredRecords
                    else js_return filteredRecords) (\<lambda>filteredRecords.
           js_bind (if truthy validationStatus
                    then arr_filter (\<lambda>r. map_option (\<lambda>u. hr_validationStatus r = u)
                                           (call_toUpperCase validationStatus))
                           filteredRecords
                    else js_return filteredRecords) (\<lambda>filteredRecords.
           js_bind (if truthy userAddress
                    then arr_filter (\<lambda>r. map_option (\<lambda>u. toLowerCase (hr_userAddress r) = u)
                                           (call_toLowerCase userAddress))
                           filteredRecords
                    else js_return filteredRecords) (\<lambda>filteredRecords.
           js_bind (if truthy startDate
                    then arr_filter (\<lambda>r. Some (num_ge (Some (of_int (hr_timestamp r)))
                                                        (int_num (parseInt (to_string startDate)))))
                           filteredRecords
                    else js_return filteredRecords) (\<lambda>filteredRecords.
           js_bind (if truthy endDate
                    then arr_filter (\<lambda>r. Some (num_le (Some (of_int (hr_timestamp r)))
                                                        (int_num (parseInt (to_string endDate)))))
                           filteredRecords
                    else js_return filteredRecords) (\<lambda>filteredRecords.
           js_bind (arr_sort (\<lambda>a b. compare_raw sortOrder
                                      (health_record_field a (to_string sortBy))
                                      (health_record_field b (to_string sortBy)))
                      filteredRecords) (\<lambda>filteredRecords.
           js_bind (paginate page limit filteredRecords) (\<lambda>(paginatedRecords, pg).
           js_bind (arr_get paginatedRecords) (\<lambda>items.
           js_return (Ok \<lparr>data = items, pagination = pg\<rparr>))))))))))))
       (Fail 500 ''Failed to fetch health records'')"

text \<open>\<open>GET /api/epochs\<close>: the items are summaries without the \<open>nodeRewards\<close> array.\<close>

record epoch_summary =
  es_epochNumber :: int
  es_startTime :: int
  es_endTime :: int
  es_totalRewardsPool :: string
  es_totalValidations :: int
  es_activeNodes :: int
  es_activeStakers :: int
  es_topNodeRewardsCount :: int

definition epochs_list :: "query \<Rightarrow> epoch_summary page_response handler" where
  "epochs_list q =
     try_catch
       (let page = page_param q;
            limit = limit_param q;
            sortOrder = (case q ''sortOrder'' of None \<Rightarrow> Some (QStr ''desc'') | v \<Rightarrow> v)
        in js_bind (arr_spread epochs_ref) (\<lambda>copy.
           js_bind (arr_sort (\<lambda>a b. if sortOrder = Some (QStr ''asc'')
                                     then e_epochNumber a - e_epochNumber b
                                     else e_epochNumber b - e_epochNumber a)
                      copy) (\<lambda>sortedEpochs.
           js_bind (paginate page limit sortedEpochs) (\<lambda>(sliced, pg).
           js_bind (arr_map (\<lambda>e. \<lparr>es_epochNumber = e_epochNumber e,
                                   es_startTime = e_startTime e,
                                   es_endTime = e_endTime e,
                                   es_totalRewardsPool = e_totalRewardsPool e,
                                   es_totalValidations = e_totalValidations e,
                                   es_activeNodes = e_activeNodes e,
                                   es_activeStakers = e_activeStakers e,
                                   es_topNodeRewardsCount =
                                     (case e_nodeRewards e of
                                        Some rs \<Rightarrow> int (length rs)
                                      | None \<Rightarrow> 0)\<rparr>)
                      sliced) (\<lambda>paginatedEpochs.
           js_bind (arr_get paginatedEpochs) (\<lambda>items.
           js_return (Ok \<lparr>data = items, pagination = pg\<rparr>)))))))
       (Fail 500 ''Failed to fetch epochs'')"

section \<open>Single-record endpoints\<close>






text \<open>\<open>GET /api/stakers/wallet/:address\<close>\<close>

definition stakers_by_wallet :: "string \<Rightarrow> staker handler" where
  "stakers_by_wallet address =
     try_catch
       (js_bind (arr_get stakers_ref) (\<lambda>ss.
          case find (\<lambda>s. toLowerCase (s_walletAddress s) = toLowerCase address) ss of
            None \<Rightarrow> js_return (Fail 404 ''Staker not found'')
          | Some staker \<Rightarrow> js_return (Ok staker)))
       (Fail 500 ''Failed to fetch staker'')"



text \<open>
  \<open>GET /api/epochs/:epochNumber\<close>: the path segment goes through \<open>parseInt\<close>, and the
  epoch is returned with \<open>nodeRewards\<close> cut to its first 50 entries.
\<close>

definition epochs_by_number :: "string \<Rightarrow> epoch handler" where
  "epochs_by_number epochNumber =
     try_catch
       (let epochNum = parseInt epochNumber
        in js_bind (arr_get epochs_ref) (\<lambda>es.
           case find (\<lambda>e. Some (e_epochNumber e) = epochNum) es of
             None \<Rightarrow> js_return (Fail 404 ''Epoch not found'')
           | Some epoch \<Rightarrow>
               js_return (Ok (epoch\<lparr>e_nodeRewards :=
                                Some (case e_nodeRewards epoch of
                                        Some rs \<Rightarrow> js_slice 0 50 rs
                                      | None \<Rightarrow> [])\<rparr>))))
       (Fail 500 ''Failed to fetch epoch'')"

section \<open>Enumerated-value endpoints\<close>

text \<open>\<open>[...new Set(xs)]\<close>: the distinct elements in the order of their first occurrence.\<close>

definition set_values :: "'a list \<Rightarrow> 'a list" where
  "set_values xs = rev (remdups (rev xs))"

text \<open>The comparison of \<open>sort()\<close> without a comparator, on strings.\<close>

definition default_compare :: "string \<Rightarrow> string \<Rightarrow> int" where
  "default_compare x y = (if x < y then - 1 else if y < x then 1 else 0)"

text \<open>\<open>GET /api/health-records/data-types\<close>\<close>

definition health_records_data_types :: "string list handler" where
  "health_records_data_types =
     try_catch
       (js_bind (arr_get healthRecords_ref) (\<lambda>rs.
        js_bind (arr_sort default_compare (Local (set_values (map hr_dataType rs)))) (\<lambda>dataTypes.
        js_bind (arr_get dataTypes) (\<lambda>body.
        js_return (Ok body)))))
       (Fail 500 ''Failed to fetch data types'')"

text \<open>\<open>GET /api/health-records/device-types\<close>\<close>

definition health_records_device_types :: "string list handler" where
  "health_records_device_types =
     try_catch
       (js_bind (arr_get healthRecords_ref) (\<lambda>rs.
        js_bind (arr_sort default_compare (Local (set_values (map hr_deviceType rs)))) (\<lambda>deviceTypes.
        js_bind (arr_get deviceTypes) (\<lambda>body.
        js_return (Ok body)))))
       (Fail 500 ''Failed to fetch device types'')"

text \<open>\<open>GET /api/transactions/types\<close>\<close>

definition transactions_types :: "string list handler" where
  "transactions_types =
     try_catch
       (js_bind (arr_get transactions_ref) (\<lambda>ts.
        js_bind (arr_sort default_compare (Local (set_values (map tx_txType ts)))) (\<lambda>types.
        js_bind (arr_get types) (\<lambda>body.
        js_return (Ok body)))))
       (Fail 500 ''Failed to fetch transaction types'')"

section \<open>Aggregation endpoints\<close>

text \<open>Arithmetic on numbers: NaN is absorbing, and \<open>0 / 0\<close> is NaN.  A divisor of the
  handlers is a collection's length, and the dividend over an empty collection is 0.\<close>

definition num_add :: "num \<Rightarrow> num \<Rightarrow> num" where
  "num_add a b = (case (a, b) of (Some x, Some y) \<Rightarrow> Some (x + y) | _ \<Rightarrow> None)"

definition num_sub :: "num \<Rightarrow> num \<Rightarrow> num" where
  "num_sub a b = (case (a, b) of (Some x, Some y) \<Rightarrow> Some (x - y) | _ \<Rightarrow> None)"

definition num_mul :: "num \<Rightarrow> num \<Rightarrow> num" where
  "num_mul a b = (case (a, b) of (Some x, Some y) \<Rightarrow> Some (x * y) | _ \<Rightarrow> None)"

definition num_div :: "num \<Rightarrow> num \<Rightarrow> num" where
  "num_div a b = (case (a, b) of (Some x, Some y) \<Rightarrow> if y = 0 then None else Some (x / y) | _ \<Rightarrow> None)"

definition num_of_int :: "int \<Rightarrow> num" where
  "num_of_int i = Some (of_int i)"

text \<open>\<open>Math.round\<close>: NaN stays NaN.\<close>

definition math_round :: "num \<Rightarrow> int option" where
  "math_round v = map_option (\<lambda>x. \<lfloor>x + 1 / 2\<rfloor>) v"

text \<open>The sign a comparator's numeric result has for \<open>sort\<close>: NaN counts as 0.\<close>

definition compare_result :: "num \<Rightarrow> int" where
  "compare_result v = (case v of None \<Rightarrow> 0 | Some x \<Rightarrow> if 0 < x then 1 else if x < 0 then - 1 else 0)"

text \<open>\<open>xs.reduce((sum, x) => sum + f(x), 0)\<close>\<close>

definition sum_num :: "('a \<Rightarrow> num) \<Rightarrow> 'a list \<Rightarrow> num" where
  "sum_num f xs = foldl (\<lambda>sum x. num_add sum (f x)) (Some 0) xs"

definition sum_int :: "('a \<Rightarrow> int) \<Rightarrow> 'a list \<Rightarrow> int" where
  "sum_int f xs = foldl (\<lambda>sum x. sum + f x) 0 xs"

definition count_where :: "('a \<Rightarrow> bool) \<Rightarrow> 'a list \<Rightarrow> int" where
  "count_where p xs = int (length (filter p xs))"

text \<open>An object used as a table: the keys in insertion order.\<close>

fun table_put :: "string \<Rightarrow> 'v \<Rightarrow> (string \<times> 'v) list \<Rightarrow> (string \<times> 'v) list" where
  "table_put k v [] = [(k, v)]"
| "table_put k v (p # ps) = (if fst p = k then (k, v) # ps else p # table_put k v ps)"

text \<open>\<open>xs.reduce((acc, x) => { acc[key(x)] = (acc[key(x)] || 0) + 1; return acc }, {})\<close>\<close>

definition count_by :: "('a \<Rightarrow> string) \<Rightarrow> 'a list \<Rightarrow> (string \<times> int) list" where
  "count_by key xs =
     foldl (\<lambda>acc x. table_put (key x)
                      ((case map_of acc (key x) of
                          None \<Rightarrow> 0
                        | Some c \<Rightarrow> if c = 0 then 0 else c) + 1) acc) [] xs"

text \<open>The same with a numeric increment: a stored NaN or 0 is falsy and restarts from 0.\<close>

definition sum_by :: "('a \<Rightarrow> string) \<Rightarrow> ('a \<Rightarrow> num) \<Rightarrow> 'a list \<Rightarrow> (string \<times> num) list" where
  "sum_by key f xs =
     foldl (\<lambda>acc x. table_put (key x)
                      (num_add (case map_of acc (key x) of
                                  Some (Some c) \<Rightarrow> Some c
                                | _ \<Rightarrow> Some 0) (f x)) acc) [] xs"

text \<open>\<open>new Set(xs).size\<close>\<close>

definition set_size :: "'a list \<Rightarrow> int" where
  "set_size xs = int (length (remdups xs))"

text \<open>\<open>xs.reduce(f)\<close> without an initial value: a TypeError on an empty array.\<close>

definition reduce1 :: "('a \<Rightarrow> 'a \<Rightarrow> 'a) \<Rightarrow> 'a list \<Rightarrow> 'a option" where
  "reduce1 f xs = (case xs of [] \<Rightarrow> None | x # rest \<Rightarrow> Some (foldl f x rest))"

text \<open>\<open>GET /api/nodes/stats\<close>\<close>

record node_stats =
  nst_totalNodes :: int
  nst_activeNodes :: int
  nst_totalStaked :: string
  nst_totalRewards :: string
  nst_avgUptime :: string
  nst_totalValidations :: int
  nst_byType :: "(string \<times> int) list"
  nst_byStatus :: "(string \<times> int) list"
  nst_byRegion :: "(string \<times> int) list"

definition nodes_stats :: "node_stats handler" where
  "nodes_stats =
     try_catch
       (js_bind (arr_get nodes_ref) (\<lambda>ns.
          let totalNodes = int (length ns);
              activeNodes = count_where (\<lambda>n. n_status n = ''ACTIVE'') ns;
              totalStaked = sum_num (\<lambda>n. parseFloat (n_stakedAmount n)) ns;
              totalRewards = sum_num (\<lambda>n. parseFloat (n_totalRewardsEarned n)) ns;
              avgUptime = num_div (sum_num (\<lambda>n. parseFloat (n_uptime n)) ns) (num_of_int totalNodes);
              totalValidations = sum_int n_validationsPerformed ns;
              byType = count_by n_nodeType ns;
              byStatus = count_by n_status ns;
              byRegion = count_by n_region ns
          in js_return (Ok \<lparr>nst_totalNodes = totalNodes,
                            nst_activeNodes = activeNodes,
                            nst_totalStaked = toFixed totalStaked 2,
                            nst_totalRewards = toFixed totalRewards 2,
                            nst_avgUptime = toFixed avgUptime 2,
                            nst_totalValidations = totalValidations,
                            nst_byType = byType,
                            nst_byStatus = byStatus,
                            nst_byRegion = byRegion\<rparr>)))
       (Fail 500 ''Failed to fetch node stats'')"

text \<open>\<open>GET /api/stakers/stats\<close>\<close>

record top_staker =
  ts_stakerId :: string
  ts_walletAddress :: string
  ts_stakedAmount :: string
  ts_delegatedTo :: string

record staker_stats =
  sst_totalStakers :: int
  sst_totalStaked :: string
  sst_totalPendingRewards :: string
  sst_totalClaimedRewards :: string
  sst_avgStake :: string
  sst_avgMultiplier :: string
  sst_byLockPeriod :: "(string \<times> int) list"
  sst_topStakers :: "top_staker list"

definition stakers_stats :: "staker_stats handler" where
  "stakers_stats =
     try_catch
       (js_bind (arr_get stakers_ref) (\<lambda>ss.
          let totalStakers = int (length ss);
              totalStaked = sum_num (\<lambda>s. parseFloat (s_stakedAmount s)) ss;
              totalPendingRewards = sum_num (\<lambda>s. parseFloat (s_pendingRewards s)) ss;
              totalClaimedRewards = sum_num (\<lambda>s. parseFloat (s_claimedRewards s)) ss;
              avgStake = num_div totalStaked (num_of_int totalStakers);
              avgMultiplier = num_div (sum_num (\<lambda>s. Some (s_stakingMultiplier s)) ss)
                                (num_of_int totalStakers);
              byLockPeriod = count_by (\<lambda>s. int_to_string (s_lockPeriod s) @ '' days'') ss
          in js_bind (arr_spread stakers_ref) (\<lambda>copy.
             js_bind (arr_sort (\<lambda>a b. compare_result
                                  (num_sub (parseFloat (s_stakedAmount b))
                                     (parseFloat (s_stakedAmount a)))) copy) (\<lambda>sorted.
             js_bind (arr_slice 0 10 sorted) (\<lambda>top.
             js_bind (arr_map (\<lambda>s. \<lparr>ts_stakerId = s_stakerId s,
                                     ts_walletAddress = s_walletAddress s,
                                     ts_stakedAmount = s_stakedAmount s,
                                     ts_delegatedTo = s_delegatedTo s\<rparr>) top) (\<lambda>mapped.
             js_bind (arr_get mapped) (\<lambda>topStakers.
             js_return (Ok \<lparr>sst_totalStakers = totalStakers,
                            sst_totalStaked = toFixed totalStaked 2,
                            sst_totalPendingRewards = toFixed totalPendingRewards 2,
                            sst_totalClaimedRewards = toFixed totalClaimedRewards 2,
                            sst_avgStake = toFixed avgStake 2,
                            sst_avgMultiplier = toFixed avgMultiplier 4,
                            sst_byLockPeriod = byLockPeriod,
                            sst_topStakers = topStakers\<rparr>))))))))
       (Fail 500 ''Failed to fetch staker stats'')"

text \<open>
  \<open>GET /api/health-records/stats\<close>.  \<open>now\<close> is \<open>Date.now()\<close> and \<open>iso_date\<close> the
  calendar date \<open>new Date(t).toISOString().split('T')[0]\<close> of a timestamp.
\<close>

record day_count =
  dc_date :: string
  dc_count :: int

record health_record_stats =
  hst_totalRecords :: int
  hst_validatedRecords :: int
  hst_pendingRecords :: int
  hst_rejectedRecords :: int
  hst_validationRate :: string
  hst_uniqueUsers :: int
  hst_byDataType :: "(string \<times> int) list"
  hst_byDeviceType :: "(string \<times> int) list"
  hst_recordsByDay :: "day_count list"

definition health_records_stats :: "int \<Rightarrow> (int \<Rightarrow> string) \<Rightarrow> health_record_stats handler" where
  "health_records_stats now iso_date =
     try_catch
       (js_bind (arr_get healthRecords_ref) (\<lambda>rs.
          let totalRecords = int (length rs);
              validatedRecords = count_where (\<lambda>r. hr_validationStatus r = ''VALIDATED'') rs;
              pendingRecords = count_where (\<lambda>r. hr_validationStatus r = ''PENDING'') rs;
              rejectedRecords = count_where (\<lambda>r. hr_validationStatus r = ''REJECTED'') rs;
              byDataType = count_by hr_dataType rs;
              byDeviceType = count_by hr_deviceType rs;
              uniqueUsers = set_size (map hr_userAddress rs);
              dayMs = 24 * 60 * 60 * 1000;
              recordsByDay =
                map (\<lambda>i. let dayStart = now - (i + 1) * dayMs;
                              dayEnd = now - i * dayMs
                          in \<lparr>dc_date = iso_date dayEnd,
                              dc_count = count_where (\<lambda>r. hr_timestamp r \<ge> dayStart
                                                          \<and> hr_timestamp r < dayEnd) rs\<rparr>)
                  [6, 5, 4, 3, 2, 1, 0]
          in js_return (Ok \<lparr>hst_totalRecords = totalRecords,
                            hst_validatedRecords = validatedRecords,
                            hst_pendingRecords = pendingRecords,
                            hst_rejectedRecords = rejectedRecords,
                            hst_validationRate =
                              toFixed (num_mul (num_div (num_of_int validatedRecords)
                                                  (num_of_int totalRecords)) (Some 100)) 2,
                            hst_uniqueUsers = uniqueUsers,
                            hst_byDataType = byDataType,
                            hst_byDeviceType = byDeviceType,
                            hst_recordsByDay = recordsByDay\<rparr>)))
       (Fail 500 ''Failed to fetch health record stats'')"

text \<open>\<open>GET /api/epochs/stats\<close>\<close>

record rewards_point =
  rp_epoch :: int
  rp_rewards :: string
  rp_validations :: int
  rp_activeNodes :: int

record epoch_stats =
  est_totalEpochs :: int
  est_totalRewardsDistributed :: string
  est_totalValidationsAllTime :: int
  est_avgRewardsPerEpoch :: string
  est_avgValidationsPerEpoch :: "int option"
  est_avgActiveNodes :: "int option"
  est_avgActiveStakers :: "int option"
  est_rewardsTrend :: "rewards_point list"

definition epochs_stats :: "epoch_stats handler" where
  "epochs_stats =
     try_catch
       (js_bind (arr_get epochs_ref) (\<lambda>es.
          let totalEpochs = int (length es);
              totalRewardsDistributed = sum_num (\<lambda>e. parseFloat (e_totalRewardsPool e)) es;
              totalValidationsAllTime = sum_int e_totalValidations es;
              avgRewardsPerEpoch = num_div totalRewardsDistributed (num_of_int totalEpochs);
              avgValidationsPerEpoch = num_div (num_of_int totalValidationsAllTime)
                                         (num_of_int totalEpochs);
              avgActiveNodes = num_div (num_of_int (sum_int e_activeNodes es)) (num_of_int totalEpochs);
              avgActiveStakers = num_div (num_of_int (sum_int e_activeStakers es))
                                   (num_of_int totalEpochs)
          in js_bind (arr_spread epochs_ref) (\<lambda>copy.
             js_bind (arr_sort (\<lambda>a b. e_epochNumber b - e_epochNumber a) copy) (\<lambda>sorted.
             js_bind (arr_slice 0 10 sorted) (\<lambda>sliced.
             js_bind (arr_reverse sliced) (\<lambda>recentEpochs.
             js_bind (arr_map (\<lambda>e. \<lparr>rp_epoch = e_epochNumber e,
                                     rp_rewards = toFixed (parseFloat (e_totalRewardsPool e)) 2,
                                     rp_validations = e_totalValidations e,
                                     rp_activeNodes = e_activeNodes e\<rparr>) recentEpochs) (\<lambda>mapped.
             js_bind (arr_get mapped) (\<lambda>rewardsTrend.
             js_return (Ok \<lparr>est_totalEpochs = totalEpochs,
                            est_totalRewardsDistributed = toFixed totalRewardsDistributed 2,
                            est_totalValidationsAllTime = totalValidationsAllTime,
                            est_avgRewardsPerEpoch = toFixed avgRewardsPerEpoch 2,
                            est_avgValidationsPerEpoch = math_round avgValidationsPerEpoch,
                            est_avgActiveNodes = math_round avgActiveNodes,
                            est_avgActiveStakers = math_round avgActiveStakers,
                            est_rewardsTrend = rewardsTrend\<rparr>)))))))))
       (Fail 500 ''Failed to fetch epoch stats'')"

text \<open>\<open>GET /api/transactions/stats\<close>\<close>

record recent_tx =
  rt_txHash :: string
  rt_txType :: string
  rt_amount :: string
  rt_timestamp :: int
  rt_status :: string

record transaction_stats =
  tst_totalTransactions :: int
  tst_confirmedTxs :: int
  tst_pendingTxs :: int
  tst_failedTxs :: int
  tst_successRate :: string
  tst_totalVolume :: string
  tst_totalGasUsed :: int
  tst_avgGasPrice :: string
  tst_byType :: "(string \<times> int) list"
  tst_volumeByType :: "(string \<times> string) list"
  tst_recentTxs :: "recent_tx list"

definition transactions_stats :: "transaction_stats handler" where
  "transactions_stats =
     try_catch
       (js_bind (arr_get transactions_ref) (\<lambda>ts.
          let totalTransactions = int (length ts);
              confirmedTxs = count_where (\<lambda>tx. tx_status tx = ''CONFIRMED'') ts;
              pendingTxs = count_where (\<lambda>tx. tx_status tx = ''PENDING'') ts;
              failedTxs = count_where (\<lambda>tx. tx_status tx = ''FAILED'') ts;
              totalVolume = sum_num (\<lambda>tx. parseFloat (tx_amount tx)) ts;
              totalGasUsed = sum_int tx_gasUsed ts;
              avgGasPrice = num_div (num_of_int (sum_int tx_gasPrice ts)) (num_of_int totalTransactions);
              byType = count_by tx_txType ts;
              volumeByType = map (\<lambda>(k, v). (k, toFixed v 2))
                               (sum_by tx_txType (\<lambda>tx. parseFloat (tx_amount tx)) ts)
          in js_bind (arr_spread transactions_ref) (\<lambda>copy.
             js_bind (arr_sort (\<lambda>a b. tx_timestamp b - tx_timestamp a) copy) (\<lambda>sorted.
             js_bind (arr_slice 0 10 sorted) (\<lambda>sliced.
             js_bind (arr_map (\<lambda>tx. \<lparr>rt_txHash = tx_txHash tx,
                                      rt_txType = tx_txType tx,
                                      rt_amount = tx_amount tx,
                                      rt_timestamp = tx_timestamp tx,
                                      rt_status = tx_status tx\<rparr>) sliced) (\<lambda>mapped.
             js_bind (arr_get mapped) (\<lambda>recentTxs.
             js_return (Ok \<lparr>tst_totalTransactions = totalTransactions,
                            tst_confirmedTxs = confirmedTxs,
                            tst_pendingTxs = pendingTxs,
                            tst_failedTxs = failedTxs,
                            tst_successRate =
                              toFixed (num_mul (num_div (num_of_int confirmedTxs)
                                                  (num_of_int totalTransactions)) (Some 100)) 2,
                            tst_totalVolume = toFixed totalVolume 2,
                            tst_totalGasUsed = totalGasUsed,
                            tst_avgGasPrice = toFixed avgGasPrice 2,
                            tst_byType = byType,
                            tst_volumeByType = volumeByType,
                            tst_recentTxs = recentTxs\<rparr>))))))))
       (Fail 500 ''Failed to fetch transaction stats'')"

text \<open>\<open>GET /api/stats\<close>: the composite snapshot with the network health score.\<close>

record stats_metadata =
  sm_generatedAt :: string
  sm_version :: string

record stats_network =
  sn_totalNodes :: int
  sn_activeNodes :: int
  sn_totalNodeStake :: string
  sn_avgUptime :: string
  sn_networkHealth :: string

record stats_staking =
  sk_totalStakers :: int
  sk_totalStaked :: string
  sk_totalPendingRewards :: string
  sk_avgStakePerUser :: string

record stats_health_data =
  sh_totalRecords :: int
  sh_validatedRecords :: int
  sh_pendingRecords :: int
  sh_validationRate :: string
  sh_uniqueUsers :: int

record stats_rewards =
  sr_totalEpochs :: int
  sr_currentEpoch :: int
  sr_totalRewardsDistributed :: string
  sr_avgRewardsPerEpoch :: string

record stats_transactions =
  st_totalTransactions :: int
  st_totalVolume :: string
  st_confirmedRate :: string

record platform_stats =
  ps_metadata :: stats_metadata
  ps_network :: stats_network
  ps_staking :: stats_staking
  ps_healthData :: stats_health_data
  ps_rewards :: stats_rewards
  ps_transactions :: stats_transactions

definition stats :: "platform_stats handler" where
  "stats =
     try_catch
       (js_bind (arr_get nodes_ref) (\<lambda>ns.
        js_bind (arr_get stakers_ref) (\<lambda>ss.
        js_bind (arr_get healthRecords_ref) (\<lambda>rs.
        js_bind (arr_get epochs_ref) (\<lambda>es.
        js_bind (arr_get transactions_ref) (\<lambda>ts.
        js_bind (\<lambda>d. (Some (generatedAt d, version d), d)) (\<lambda>(md_generatedAt, md_version).
          let totalNodes = int (length ns);
              activeNodes = count_where (\<lambda>n. n_status n = ''ACTIVE'') ns;
              totalNodeStake = sum_num (\<lambda>n. parseFloat (n_stakedAmount n)) ns;
              totalStakers = int (length ss);
              totalStaked = sum_num (\<lambda>s. parseFloat (s_stakedAmount s)) ss;
              totalPendingRewards = sum_num (\<lambda>s. parseFloat (s_pendingRewards s)) ss;
              totalHealthRecords = int (length rs);
              validatedRecords = count_where (\<lambda>r. hr_validationStatus r = ''VALIDATED'') rs;
              uniqueUsers = set_size (map hr_userAddress rs);
              totalEpochs = int (length es)
          in js_bind (js_lift (reduce1 (\<lambda>mx e. if e_epochNumber e > e_epochNumber mx then e else mx) es))
               (\<lambda>currentEpoch.
          let totalRewardsDistributed = sum_num (\<lambda>e. parseFloat (e_totalRewardsPool e)) es;
              totalTransactions = int (length ts);
              totalVolume = sum_num (\<lambda>tx. parseFloat (tx_amount tx)) ts;
              avgUptime = num_div (sum_num (\<lambda>n. parseFloat (n_uptime n)) ns) (num_of_int totalNodes);
              validationRate = num_mul (num_div (num_of_int validatedRecords)
                                          (num_of_int totalHealthRecords)) (Some 100);
              activeNodeRate = num_mul (num_div (num_of_int activeNodes) (num_of_int totalNodes))
                                 (Some 100);
              networkHealth = toFixed (num_div (num_add (num_add avgUptime validationRate)
                                                  activeNodeRate) (Some 3)) 1
          in js_return (Ok
               \<lparr>ps_metadata = \<lparr>sm_generatedAt = md_generatedAt, sm_version = md_version\<rparr>,
                ps_network =
                  \<lparr>sn_totalNodes = totalNodes,
                   sn_activeNodes = activeNodes,
                   sn_totalNodeStake = toFixed totalNodeStake 2,
                   sn_avgUptime = toFixed avgUptime 2,
                   sn_networkHealth = networkHealth\<rparr>,
                ps_staking =
                  \<lparr>sk_totalStakers = totalStakers,
                   sk_totalStaked = toFixed totalStaked 2,
                   sk_totalPendingRewards = toFixed totalPendingRewards 2,
                   sk_avgStakePerUser = toFixed (num_div totalStaked (num_of_int totalStakers)) 2\<rparr>,
                ps_healthData =
                  \<lparr>sh_totalRecords = totalHealthRecords,
                   sh_validatedRecords = validatedRecords,
                   sh_pendingRecords = count_where (\<lambda>r. hr_validationStatus r = ''PENDING'') rs,
                   sh_validationRate = toFixed validationRate 2,
                   sh_uniqueUsers = uniqueUsers\<rparr>,
                ps_rewards =
                  \<lparr>sr_totalEpochs = totalEpochs,
                   sr_currentEpoch = e_epochNumber currentEpoch,
                   sr_totalRewardsDistributed = toFixed totalRewardsDistributed 2,
                   sr_avgRewardsPerEpoch =
                     toFixed (num_div totalRewardsDistributed (num_of_int totalEpochs)) 2\<rparr>,
                ps_transactions =
                  \<lparr>st_totalTransactions = totalTransactions,
                   st_totalVolume = toFixed totalVolume 2,
                   st_confirmedRate =
                     toFixed (num_mul (num_div (num_of_int (count_where
                                                  (\<lambda>tx. tx_status tx = ''CONFIRMED'') ts))
                                         (num_of_int totalTransactions)) (Some 100)) 2\<rparr>\<rparr>)))))))))
       (Fail 500 ''Failed to fetch platform stats'')"

text \<open>\<open>GET /api/stats/overview\<close>\<close>

record stats_overview =
  so_activeNodes :: int
  so_totalStaked :: string
  so_healthRecordsValidated :: int
  so_totalRewardsDistributed :: string
  so_totalUsers :: int
  so_totalTransactions :: int

definition stats_overview :: "stats_overview handler" where
  "stats_overview =
     try_catch
       (js_bind (arr_get nodes_ref) (\<lambda>ns.
        js_bind (arr_get stakers_ref) (\<lambda>ss.
        js_bind (arr_get healthRecords_ref) (\<lambda>rs.
        js_bind (arr_get epochs_ref) (\<lambda>es.
        js_bind (arr_get transactions_ref) (\<lambda>ts.
          let activeNodes = count_where (\<lambda>n. n_status n = ''ACTIVE'') ns;
              totalStaked = sum_num (\<lambda>s. parseFloat (s_stakedAmount s)) ss;
              validatedRecords = count_where (\<lambda>r. hr_validationStatus r = ''VALIDATED'') rs;
              totalRewards = sum_num (\<lambda>e. parseFloat (e_totalRewardsPool e)) es
          in js_return (Ok \<lparr>so_activeNodes = activeNodes,
                            so_totalStaked = toFixed totalStaked 2,
                            so_healthRecordsValidated = validatedRecords,
                            so_totalRewardsDistributed = toFixed totalRewards 2,
                            so_totalUsers = set_size (map hr_userAddress rs),
                            so_totalTransactions = int (length ts)\<rparr>)))))))
       (Fail 500 ''Failed to fetch overview stats'')"

section \<open>The data generator\<close>

text \<open>
  \<open>Math.random()\<close> is a sequence \<open>u\<close> of draws from \<open>[0, 1)\<close>: the \<open>k\<close>-th call returns
  \<open>u k\<close>.  A generating function is given the position \<open>k\<close> of its first draw and uses
  the draws in the order of the source.  \<open>now\<close> is \<open>Date.now()\<close>.
\<close>

definition randomInt :: "rat \<Rightarrow> int \<Rightarrow> int \<Rightarrow> int" where
  "randomInt r mn mx = \<lfloor>r * of_int (mx - mn + 1)\<rfloor> + mn"

definition randomFloat :: "rat \<Rightarrow> rat \<Rightarrow> rat \<Rightarrow> nat \<Rightarrow> string" where
  "randomFloat r mn mx decimals = toFixed (Some (r * (mx - mn) + mn)) decimals"

definition randomChoice :: "rat \<Rightarrow> 'a list \<Rightarrow> 'a" where
  "randomChoice r arr = arr ! nat \<lfloor>r * of_nat (length arr)\<rfloor>"

definition randomAddress :: "(nat \<Rightarrow> rat) \<Rightarrow> nat \<Rightarrow> string" where
  "randomAddress u k =
     ''0x'' @ map (\<lambda>i. ''0123456789abcdef'' ! nat (randomInt (u (k + i)) 0 15)) [0..<40]"

definition padNumber :: "int \<Rightarrow> nat \<Rightarrow> string" where
  "padNumber n width =
     (let s = int_to_string n in replicate (width - length s) (CHR ''0'') @ s)"








definition health_data_types :: "string list" where
  "health_data_types =
     [''HEART_RATE'', ''STEPS'', ''SLEEP'', ''ACTIVE_MINUTES'', ''CALORIES'', ''BLOOD_OXYGEN'',
      ''STRESS'', ''HRV'']"

definition health_device_types :: "string list" where
  "health_device_types =
     [''APPLE_WATCH'', ''FITBIT'', ''GARMIN'', ''OURA'', ''WHOOP'', ''SAMSUNG'', ''XIAOMI'']"

definition health_validation_statuses :: "string list" where
  "health_validation_statuses = [''VALIDATED'', ''PENDING'', ''REJECTED'']"

definition health_units :: "(string \<times> string) list" where
  "health_units =
     [(''HEART_RATE'', ''bpm''), (''STEPS'', ''steps''), (''SLEEP'', ''minutes''),
      (''ACTIVE_MINUTES'', ''minutes''), (''CALORIES'', ''kcal''), (''BLOOD_OXYGEN'', ''%''),
      (''STRESS'', ''score''), (''HRV'', ''ms'')]"

definition health_value_ranges :: "(string \<times> int \<times> int) list" where
  "health_value_ranges =
     [(''HEART_RATE'', 50, 180), (''STEPS'', 1000, 20000), (''SLEEP'', 180, 600),
      (''ACTIVE_MINUTES'', 0, 300), (''CALORIES'', 1200, 4000), (''BLOOD_OXYGEN'', 92, 100),
      (''STRESS'', 1, 100), (''HRV'', 20, 100)]"

text \<open>A table lookup by a data type; every drawn data type is a key of both tables (a
  missing key is read as the empty entry).\<close>

definition lookup_unit :: "string \<Rightarrow> string" where
  "lookup_unit k = (case map_of health_units k of Some v \<Rightarrow> v | None \<Rightarrow> [])"

definition lookup_range :: "string \<Rightarrow> int \<times> int" where
  "lookup_range k = (case map_of health_value_ranges k of Some v \<Rightarrow> v | None \<Rightarrow> (0, 0))"

text \<open>One iteration of the loop of \<open>generateHealthRecords\<close>: 8 draws.\<close>

definition generate_health_record ::
    "(nat \<Rightarrow> rat) \<Rightarrow> int \<Rightarrow> string list \<Rightarrow> string list \<Rightarrow> int \<Rightarrow> nat \<Rightarrow> health_record" where
  "generate_health_record u now userAddresses nodeIds i k =
     (let dataType = randomChoice (u k) health_data_types;
          range = lookup_range dataType
      in \<lparr>hr_recordId = ''REC-'' @ padNumber i 8,
          hr_userAddress = randomChoice (u (k + 1)) userAddresses,
          hr_dataType = dataType,
          hr_value = (if dataType = ''BLOOD_OXYGEN''
                      then JStr (randomFloat (u (k + 2)) (of_int (fst range)) (of_int (snd range)) 1)
                      else int_val (randomInt (u (k + 2)) (fst range) (snd range))),
          hr_unit = lookup_unit dataType,
          hr_deviceType = randomChoice (u (k + 3)) health_device_types,
          hr_timestamp = now - randomInt (u (k + 4)) 0 30 * 24 * 60 * 60 * 1000,
          hr_validatedBy = randomChoice (u (k + 5)) nodeIds,
          hr_validationStatus = randomChoice (u (k + 6)) health_validation_statuses,
          hr_rewardEarned = randomFloat (u (k + 7)) (1 / 10) 5 4\<rparr>)"

text \<open>\<open>generateHealthRecords\<close>: 200 user addresses of 40 draws each come first.\<close>

definition generateHealthRecords :: "(nat \<Rightarrow> rat) \<Rightarrow> int \<Rightarrow> nat \<Rightarrow> nat \<Rightarrow> health_record list" where
  "generateHealthRecords u now k count =
     (let userAddresses = map (\<lambda>j. randomAddress u (k + 40 * j)) [0..<200];
          nodeIds = map (\<lambda>j. ''NODE-'' @ padNumber (int j + 1) 6) [0..<100]
      in map (\<lambda>i. generate_health_record u now userAddresses nodeIds (int i)
                     (k + 8000 + 8 * (i - 1))) [1..<count + 1])"

section \<open>The client's query builder\<close>

text \<open>A parameter value of the client: \<open>string | number | null | undefined\<close>; the
  numbers the pages pass are integers.\<close>

datatype param_value = PUndefined | PNull | PString string | PNumber int

definition string_of_param :: "param_value \<Rightarrow> string" where
  "string_of_param v =
     (case v of PUndefined \<Rightarrow> ''undefined'' | PNull \<Rightarrow> ''null'' | PString s \<Rightarrow> s
      | PNumber n \<Rightarrow> int_to_string n)"

text \<open>The entries \<open>buildQueryString\<close> appends to its \<open>URLSearchParams\<close>.\<close>

definition search_params :: "(string \<times> param_value) list \<Rightarrow> (string \<times> string) list" where
  "search_params params =
     map (\<lambda>(key, v). (key, string_of_param v))
       (filter (\<lambda>(key, v). v \<noteq> PUndefined \<and> v \<noteq> PNull \<and> v \<noteq> PString []) params)"

text \<open>The \<open>application/x-www-form-urlencoded\<close> serialisation of \<open>URLSearchParams.toString\<close>.\<close>

definition form_encode_char :: "char \<Rightarrow> string" where
  "form_encode_char c =
     (let n = (of_char c :: int) in
      if c = CHR '' '' then ''+''
      else if (48 \<le> n \<and> n \<le> 57) \<or> (65 \<le> n \<and> n \<le> 90) \<or> (97 \<le> n \<and> n \<le> 122)
              \<or> c \<in> set ''*-._''
           then [c]
      else [CHR ''%'', ''0123456789ABCDEF'' ! nat (n div 16), ''0123456789ABCDEF'' ! nat (n mod 16)])"

definition form_encode :: "string \<Rightarrow> string" where
  "form_encode s = concat (map form_encode_char s)"

fun join_amp :: "string list \<Rightarrow> string" where
  "join_amp [] = []"
| "join_amp [s] = s"
| "join_amp (s # t # ss) = s @ ''&'' @ join_amp (t # ss)"

definition buildQueryString :: "(string \<times> param_value) list \<Rightarrow> string" where
  "buildQueryString params =
     (let queryString = join_amp (map (\<lambda>(key, v). form_encode key @ ''='' @ form_encode v)
                                   (search_params params))
      in if queryString \<noteq> [] then ''?'' @ queryString else [])"

section \<open>The properties' vocabulary\<close>

text \<open>A filter parameter that is a string, or absent (not an array or an object).\<close>

definition string_or_absent :: "qval option \<Rightarrow> bool" where
  "string_or_absent v = (case v of None \<Rightarrow> True | Some (QStr s) \<Rightarrow> True | Some _ \<Rightarrow> False)"

definition string_params :: "query \<Rightarrow> string list \<Rightarrow> bool" where
  "string_params q keys = list_all (\<lambda>k. string_or_absent (q k)) keys"

text \<open>A constraint that applies only when its parameter is given (not absent, not empty).\<close>

definition when_given :: "qval option \<Rightarrow> bool \<Rightarrow> bool" where
  "when_given v constraint = (if truthy v then constraint else True)"

text \<open>The filtered set of each list endpoint: the records that pass all given filters.\<close>

definition nodes_matching :: "query \<Rightarrow> node \<Rightarrow> bool" where
  "nodes_matching q n =
     (when_given (q ''status'') (n_status n = toUpperCase (to_string (q ''status'')))
      \<and> when_given (q ''nodeType'') (n_nodeType n = toUpperCase (to_string (q ''nodeType'')))
      \<and> when_given (q ''region'') (n_region n = toUpperCase (to_string (q ''region''))))"

definition stakers_matching :: "query \<Rightarrow> staker \<Rightarrow> bool" where
  "stakers_matching q s =
     (when_given (q ''minStake'')
        (num_ge (parseFloat (s_stakedAmount s)) (parseFloat (to_string (q ''minStake''))))
      \<and> when_given (q ''maxStake'')
          (num_le (parseFloat (s_stakedAmount s)) (parseFloat (to_string (q ''maxStake'')))))"

definition transactions_matching :: "query \<Rightarrow> transaction \<Rightarrow> bool" where
  "transactions_matching q tx =
     (when_given (q ''txType'') (tx_txType tx = toUpperCase (to_string (q ''txType'')))
      \<and> when_given (q ''status'') (tx_status tx = toUpperCase (to_string (q ''status'')))
      \<and> when_given (q ''address'')
          (toLowerCase (tx_from tx) = toLowerCase (to_string (q ''address''))
           \<or> toLowerCase (tx_to tx) = toLowerCase (to_string (q ''address'')))
      \<and> when_given (q ''startDate'')
          (num_ge (Some (of_int (tx_timestamp tx))) (int_num (parseInt (to_string (q ''startDate'')))))
      \<and> when_given (q ''endDate'')
          (num_le (Some (of_int (tx_timestamp tx))) (int_num (parseInt (to_string (q ''endDate''))))))"


text \<open>The order each list endpoint gives the filtered set before it cuts the page.\<close>

definition sort_order_of :: "query \<Rightarrow> qval option" where
  "sort_order_of q = (case q ''sortOrder'' of None \<Rightarrow> Some (QStr ''desc'') | v \<Rightarrow> v)"

definition sort_key_of :: "query \<Rightarrow> string" where
  "sort_key_of q = to_string (case q ''sortBy'' of None \<Rightarrow> Some (QStr ''timestamp'') | v \<Rightarrow> v)"

definition nodes_ordered :: "query \<Rightarrow> node list \<Rightarrow> node list" where
  "nodes_ordered q xs =
     (if truthy (q ''sortBy'')
      then js_sort (\<lambda>a b. compare_parsed (sort_order_of q) (node_field a (to_string (q ''sortBy'')))
                             (node_field b (to_string (q ''sortBy'')))) xs
      else xs)"

definition stakers_ordered :: "query \<Rightarrow> staker list \<Rightarrow> staker list" where
  "stakers_ordered q xs =
     (if truthy (q ''sortBy'')
      then js_sort (\<lambda>a b. compare_parsed (sort_order_of q) (staker_field a (to_string (q ''sortBy'')))
                             (staker_field b (to_string (q ''sortBy'')))) xs
      else xs)"

definition transactions_ordered :: "query \<Rightarrow> transaction list \<Rightarrow> transaction list" where
  "transactions_ordered q xs =
     js_sort (\<lambda>a b. compare_parsed (sort_order_of q) (transaction_field a (sort_key_of q))
                       (transaction_field b (sort_key_of q))) xs"


definition epochs_ordered :: "query \<Rightarrow> epoch list \<Rightarrow> epoch list" where
  "epochs_ordered q xs =
     js_sort (\<lambda>a b. if sort_order_of q = Some (QStr ''asc'')
                     then e_epochNumber a - e_epochNumber b
                     else e_epochNumber b - e_epochNumber a) xs"

definition epoch_summary_of :: "epoch \<Rightarrow> epoch_summary" where
  "epoch_summary_of e =
     \<lparr>es_epochNumber = e_epochNumber e, es_startTime = e_startTime e, es_endTime = e_endTime e,
      es_totalRewardsPool = e_totalRewardsPool e, es_totalValidations = e_totalValidations e,
      es_activeNodes = e_activeNodes e, es_activeStakers = e_activeStakers e,
      es_topNodeRewardsCount = (case e_nodeRewards e of Some rs \<Rightarrow> int (length rs) | None \<Rightarrow> 0)\<rparr>"

text \<open>The page \<open>pg\<close> of size \<open>lm\<close> of a list, with its pagination metadata.\<close>

definition page_of :: "int \<Rightarrow> int \<Rightarrow> 'a list \<Rightarrow> 'a page_response" where
  "page_of pg lm xs =
     \<lparr>data = js_slice ((pg - 1) * lm) ((pg - 1) * lm + lm) xs,
      pagination =
        \<lparr>p_page = pg, p_limit = lm, p_totalItems = int (length xs),
         p_totalPages = \<lceil>rat_of_int (int (length xs)) / rat_of_int lm\<rceil>,
         p_hasMore = (pg < \<lceil>rat_of_int (int (length xs)) / rat_of_int lm\<rceil>)\<rparr>\<rparr>"


text \<open>A list of numbers that never increases.\<close>

definition non_increasing :: "rat list \<Rightarrow> bool" where
  "non_increasing xs = sorted_wrt (\<lambda>a b. b \<le> a) xs"



definition first_rewards :: "epoch \<Rightarrow> epoch" where
  "first_rewards e =
     e\<lparr>e_nodeRewards := Some (case e_nodeRewards e of Some rs \<Rightarrow> take 50 rs | None \<Rightarrow> [])\<rparr>"


text \<open>A list item summarises an epoch; a detail body shows an epoch with a prefix of at
  most 50 of its node rewards.\<close>

definition rewards_count :: "epoch \<Rightarrow> int" where
  "rewards_count e = (case e_nodeRewards e of Some rs \<Rightarrow> int (length rs) | None \<Rightarrow> 0)"

definition summarises :: "epoch_summary \<Rightarrow> epoch \<Rightarrow> bool" where
  "summarises s e =
     (es_epochNumber s = e_epochNumber e \<and> es_startTime s = e_startTime e
      \<and> es_endTime s = e_endTime e \<and> es_totalRewardsPool s = e_totalRewardsPool e
      \<and> es_totalValidations s = e_totalValidations e \<and> es_activeNodes s = e_activeNodes e
      \<and> es_activeStakers s = e_activeStakers e \<and> es_topNodeRewardsCount s = rewards_count e)"

definition truncates :: "epoch \<Rightarrow> epoch \<Rightarrow> bool" where
  "truncates body e =
     (e_epochNumber body = e_epochNumber e \<and> e_startTime body = e_startTime e
      \<and> e_endTime body = e_endTime e \<and> e_totalRewardsPool body = e_totalRewardsPool e
      \<and> e_totalValidations body = e_totalValidations e \<and> e_activeNodes body = e_activeNodes e
      \<and> e_activeStakers body = e_activeStakers e
      \<and> (case e_nodeRewards body of
            None \<Rightarrow> False
          | Some shown \<Rightarrow> length shown \<le> 50
              \<and> shown = take 50 (case e_nodeRewards e of Some rs \<Rightarrow> rs | None \<Rightarrow> [])))"

text \<open>
  A reference to an array the handler allocated; a computation that leaves the store as it
  found it and whose result satisfies \<open>post\<close>; a handler that leaves the store as it
  found it.
\<close>

definition is_local :: "'a aref \<Rightarrow> bool" where
  "is_local r = (case r of Local xs \<Rightarrow> True | Global g u \<Rightarrow> False)"

definition keeps :: "'a js \<Rightarrow> ('a \<Rightarrow> bool) \<Rightarrow> bool" where
  "keeps m post = (\<forall>d. snd (m d) = d \<and> (case fst (m d) of Some x \<Rightarrow> post x | None \<Rightarrow> True))"

definition leaves_store :: "'a handler \<Rightarrow> bool" where
  "leaves_store h = (\<forall>d. snd (h d) = d)"

text \<open>Every draw lies in \<open>[0, 1)\<close>, as \<open>Math.random\<close> promises; a store whose health
  records are a given list.\<close>

definition draws_in_range :: "(nat \<Rightarrow> rat) \<Rightarrow> bool" where
  "draws_in_range u = (\<forall>i. 0 \<le> u i \<and> u i < 1)"

definition with_health_records :: "db \<Rightarrow> health_record list \<Rightarrow> db" where
  "with_health_records d rs = d\<lparr>healthRecords := rs\<rparr>"

text \<open>Every record's field \<open>key\<close> is a numeric-looking string; the float a field parses
  to; a request that sorts, and not ascending.\<close>

definition numeric_strings :: "('a \<Rightarrow> string \<Rightarrow> jsval) \<Rightarrow> string \<Rightarrow> 'a list \<Rightarrow> bool" where
  "numeric_strings field key xs =
     list_all (\<lambda>x. case field x key of JStr s \<Rightarrow> parseFloat s \<noteq> None | _ \<Rightarrow> False) xs"

definition parsed :: "('a \<Rightarrow> string \<Rightarrow> jsval) \<Rightarrow> string \<Rightarrow> 'a \<Rightarrow> rat" where
  "parsed field key x = (case parseFloat_val (field x key) of Some v \<Rightarrow> v | None \<Rightarrow> 0)"

definition descending_request :: "query \<Rightarrow> bool" where
  "descending_request q = (truthy (q ''sortBy'') \<and> sort_order_of q \<noteq> Some (QStr ''asc''))"










definition network_health_of :: "platform_stats response \<Rightarrow> string option" where
  "network_health_of r = (case r of Ok s \<Rightarrow> Some (sn_networkHealth (ps_network s)) | Fail c m \<Rightarrow> None)"

section \<open>A small data set and some requests\<close>

definition example_node :: "string \<Rightarrow> string \<Rightarrow> string \<Rightarrow> node" where
  "example_node ident st staked =
     \<lparr>n_nodeId = ident, n_operatorAddress = ''0x00000000000000000000000000000000000000aa'',
      n_nodeType = ''VALIDATOR'', n_region = ''LATAM'', n_status = st, n_stakedAmount = staked,
      n_totalRewardsEarned = ''100.000000'', n_uptime = ''75.0000'',
      n_validationsPerformed = 10000, n_validationsSuccessful = 9500, n_validationsFailed = 500,
      n_slashingEvents = 0, n_registeredAt = 1700000000000, n_lastHeartbeat = 1700000000000,
      n_metadata = \<lparr>nm_version = ''v1.0.0'', nm_hardware = ''AWS-T3'', nm_bandwidth = 500\<rparr>\<rparr>"

definition example_staker :: "string \<Rightarrow> string \<Rightarrow> string \<Rightarrow> staker" where
  "example_staker ident staked delegate =
     \<lparr>s_stakerId = ident, s_walletAddress = ''0x00000000000000000000000000000000000000bb'',
      s_stakedAmount = staked, s_pendingRewards = ''10.000000'', s_claimedRewards = ''100.000000'',
      s_lockPeriod = 365, s_unlockTime = 1800000000000, s_stakingMultiplier = 2,
      s_delegatedTo = delegate\<rparr>"

definition example_record :: "string \<Rightarrow> string \<Rightarrow> health_record" where
  "example_record ident v =
     \<lparr>hr_recordId = ident, hr_userAddress = ''0x00000000000000000000000000000000000000cc'',
      hr_dataType = ''BLOOD_OXYGEN'', hr_value = JStr v, hr_unit = ''%'',
      hr_deviceType = ''GARMIN'', hr_timestamp = 1700000000000, hr_validatedBy = ''NODE-000001'',
      hr_validationStatus = ''VALIDATED'', hr_rewardEarned = ''0.1000''\<rparr>"

definition example_epoch :: "int \<Rightarrow> nat \<Rightarrow> epoch" where
  "example_epoch number rewards =
     \<lparr>e_epochNumber = number, e_startTime = 1700000000000, e_endTime = 1700604800000,
      e_totalRewardsPool = ''50000.000000'', e_totalValidations = 50000, e_activeNodes = 2,
      e_activeStakers = 300,
      e_nodeRewards = Some (replicate rewards
          \<lparr>nr_nodeId = ''NODE-000001'', nr_reward = ''100.000000'', nr_validations = 1000\<rparr>)\<rparr>"

definition example_transaction :: "string \<Rightarrow> string \<Rightarrow> transaction" where
  "example_transaction hash amount =
     \<lparr>tx_txHash = hash, tx_txType = ''STAKE'',
      tx_from = ''0x00000000000000000000000000000000000000dd'',
      tx_to = ''0x00000000000000000000000000000000000000ee'', tx_amount = amount,
      tx_gasUsed = 21000, tx_gasPrice = 20, tx_timestamp = 1700000000000,
      tx_blockNumber = 18000000, tx_status = ''CONFIRMED'', tx_nonce = 1\<rparr>"

definition example_db :: db where
  "example_db =
     \<lparr>generatedAt = ''2024-01-01T00:00:00.000Z'', version = ''1.0.0'',
      nodes = [example_node ''NODE-000001'' ''ACTIVE'' ''100.500000'',
               example_node ''NODE-000002'' ''INACTIVE'' ''92.500000''],
      stakers = [example_staker ''STAKER-0000001'' ''100.500000'' ''NODE-000001'',
                 example_staker ''STAKER-0000002'' ''92.500000'' ''NODE-000002''],
      healthRecords = [example_record ''REC-00000001'' ''100.0'',
                       example_record ''REC-00000002'' ''92.5''],
      epochs = [example_epoch 1 51, example_epoch 2 20],
      transactions = [example_transaction ''0x01'' ''100.500000'',
                      example_transaction ''0x02'' ''92.500000'']\<rparr>"

text \<open>\<open>?page=2&limit=1\<close>\<close>

definition second_page_query :: query where
  "second_page_query = [''page'' \<mapsto> QStr ''2'', ''limit'' \<mapsto> QStr ''1'']"

text \<open>\<open>?sortBy=value&sortOrder=desc\<close>\<close>

definition sort_by_value_query :: query where
  "sort_by_value_query = [''sortBy'' \<mapsto> QStr ''value'', ''sortOrder'' \<mapsto> QStr ''desc'']"

text \<open>\<open>?sortBy=stakedAmount&sortOrder=desc\<close>\<close>

definition sort_by_stake_query :: query where
  "sort_by_stake_query = [''sortBy'' \<mapsto> QStr ''stakedAmount'', ''sortOrder'' \<mapsto> QStr ''desc'']"

text \<open>A sequence of draws that is 0 throughout, and one that cycles through sevenths.\<close>

definition zero_draws :: "nat \<Rightarrow> rat" where
  "zero_draws i = 0"

definition cycling_draws :: "nat \<Rightarrow> rat" where
  "cycling_draws i = of_nat (i mod 7) / 7"


definition oversized_query :: query where
  "oversized_query = [''page'' \<mapsto> QStr ''0'', ''limit'' \<mapsto> QStr ''1000'']"

text \<open>Parameters as a page hands them to the query builder.\<close>

definition example_params :: "(string \<times> param_value) list" where
  "example_params =
     [(''page'', PNumber 2), (''status'', PString []), (''region'', PNull),
      (''sortBy'', PUndefined), (''nodeType'', PString ''validator'')]"

text \<open>A comparator on nodes, by \<open>nodeId\<close> descending.\<close>

definition by_node_id :: "node \<Rightarrow> node \<Rightarrow> int" where
  "by_node_id a b = (if n_nodeId a < n_nodeId b then 1 else - 1)"


text \<open>A store with no node, and one with no epoch.\<close>

definition without_nodes :: "db \<Rightarrow> db" where
  "without_nodes d = d\<lparr>nodes := []\<rparr>"

definition without_epochs :: "db \<Rightarrow> db" where
  "without_epochs d = d\<lparr>epochs := []\<rparr>"

section \<open>Running a handler\<close>

lemma js_bind_return: "js_bind (js_return x) f = f x"
  by (simp add: js_bind_def js_return_def)

lemma js_bind_throw: "js_bind js_throw f = js_throw"
  by (simp add: js_bind_def js_throw_def)

lemma js_lift_Some: "js_lift (Some x) = js_return x"
  by (simp add: js_lift_def)

lemma js_lift_None: "js_lift None = js_throw"
  by (simp add: js_lift_def)

lemma arr_get_Local: "arr_get (Local xs) = js_return xs"
  by (simp add: arr_get_def js_return_def)

lemma arr_get_Global: "js_bind (arr_get (Global g u)) f = (\<lambda>d. f (g d) d)"
  by (simp add: arr_get_def js_bind_def)

lemma arr_spread_Global: "js_bind (arr_spread (Global g u)) f = (\<lambda>d. f (Local (g d)) d)"
  by (simp add: arr_spread_def arr_get_def js_bind_def js_return_def)

lemma arr_sort_Local: "arr_sort c (Local xs) = js_return (Local (js_sort c xs))"
  by (simp add: arr_sort_def js_return_def)

lemma arr_reverse_Local: "arr_reverse (Local xs) = js_return (Local (rev xs))"
  by (simp add: arr_reverse_def js_return_def)

lemma arr_filter_Local: "arr_filter p (Local xs) = js_lift (map_option Local (filter_throwing p xs))"
  by (simp add: arr_filter_def arr_get_Local js_bind_return)

lemma arr_slice_Local: "arr_slice s e (Local xs) = js_return (Local (js_slice s e xs))"
  by (simp add: arr_slice_def arr_get_Local js_bind_return)

lemma arr_map_Local: "arr_map f (Local xs) = js_return (Local (map f xs))"
  by (simp add: arr_map_def arr_get_Local js_bind_return)

lemma arr_length_Local: "arr_length (Local xs) = js_return (int (length xs))"
  by (simp add: arr_length_def arr_get_Local js_bind_return)

lemmas local_ops = js_bind_return js_bind_throw js_lift_Some js_lift_None arr_get_Local
  arr_sort_Local arr_reverse_Local arr_filter_Local arr_slice_Local
  arr_map_Local arr_length_Local

lemma try_catch_return: "try_catch (js_return r) c d = (r, d)"
  by (simp add: try_catch_def js_return_def)

lemma try_catch_throw: "try_catch js_throw c d = (c, d)"
  by (simp add: try_catch_def js_throw_def)

lemma try_catch_spread:
  "try_catch (js_bind (arr_spread (Global g u)) f) c d = try_catch (f (Local (g d))) c d"
  by (simp add: try_catch_def arr_spread_Global)

lemma try_catch_get:
  "try_catch (js_bind (arr_get (Global g u)) f) c d = try_catch (f (g d)) c d"
  by (simp add: try_catch_def arr_get_Global)

lemma paginate_Local:
  "js_bind (paginate pg lm (Local xs)) f =
   f (Local (data (page_of pg lm xs)), pagination (page_of pg lm xs))"
  by (simp add: paginate_def local_ops page_of_def Let_def)

lemma filter_throwing_total: "filter_throwing (\<lambda>x. Some (P x)) xs = Some (filter P xs)"
  by (induction xs) auto

lemma call_toUpperCase_string:
  "string_or_absent v \<Longrightarrow> truthy v \<Longrightarrow> call_toUpperCase v = Some (toUpperCase (to_string v))"
  by (auto simp: string_or_absent_def truthy_def call_toUpperCase_def to_string_def
      split: option.splits qval.splits)

lemma call_toLowerCase_string:
  "string_or_absent v \<Longrightarrow> truthy v \<Longrightarrow> call_toLowerCase v = Some (toLowerCase (to_string v))"
  by (auto simp: string_or_absent_def truthy_def call_toLowerCase_def to_string_def
      split: option.splits qval.splits)

lemma filter_step_upper:
  "string_or_absent v \<Longrightarrow>
   js_bind (if truthy v then arr_filter (\<lambda>n. map_option (\<lambda>u. g n = u) (call_toUpperCase v)) (Local xs)
            else js_return (Local xs)) f
   = f (Local (filter (\<lambda>n. when_given v (g n = toUpperCase (to_string v))) xs))"
  by (simp add: local_ops filter_throwing_total call_toUpperCase_string when_given_def)

lemma filter_step_lower:
  "string_or_absent v \<Longrightarrow>
   js_bind (if truthy v then arr_filter (\<lambda>n. map_option (\<lambda>u. g n = u) (call_toLowerCase v)) (Local xs)
            else js_return (Local xs)) f
   = f (Local (filter (\<lambda>n. when_given v (g n = toLowerCase (to_string v))) xs))"
  by (simp add: local_ops filter_throwing_total call_toLowerCase_string when_given_def)

lemma filter_step_address:
  "string_or_absent v \<Longrightarrow>
   js_bind (if truthy v then js_bind (js_lift (call_toLowerCase v)) (\<lambda>addr.
                               arr_filter (\<lambda>n. Some (P n addr)) (Local xs))
            else js_return (Local xs)) f
   = f (Local (filter (\<lambda>n. when_given v (P n (toLowerCase (to_string v)))) xs))"
  by (simp add: local_ops filter_throwing_total call_toLowerCase_string when_given_def)

lemma filter_step_total:
  "js_bind (if truthy v then arr_filter (\<lambda>n. Some (P n)) (Local xs) else js_return (Local xs)) f
   = f (Local (filter (\<lambda>n. when_given v (P n)) xs))"
  by (simp add: local_ops filter_throwing_total when_given_def)

lemma sort_step:
  "js_bind (if b then arr_sort c (Local xs) else js_return (Local xs)) f
   = f (Local (if b then js_sort c xs else xs))"
  by (simp add: local_ops)

lemmas run_steps = try_catch_spread filter_step_upper filter_step_lower filter_step_address
  filter_step_total sort_step local_ops paginate_Local try_catch_return

lemma nodes_matching_fun:
  "nodes_matching q = (\<lambda>n. when_given (q ''status'') (n_status n = toUpperCase (to_string (q ''status'')))
      \<and> when_given (q ''nodeType'') (n_nodeType n = toUpperCase (to_string (q ''nodeType'')))
      \<and> when_given (q ''region'') (n_region n = toUpperCase (to_string (q ''region''))))"
  by (simp add: fun_eq_iff nodes_matching_def)

lemma nodes_list_run:
  assumes "string_params q [''status'', ''nodeType'', ''region'']"
  shows "nodes_list q d = (Ok (page_of (page_param q) (limit_param q)
            (nodes_ordered q (filter (nodes_matching q) (nodes d)))), d)"
  unfolding nodes_list_def Let_def nodes_ref_def
  using assms
  by (simp add: run_steps string_params_def split del: if_split)
    (simp add: nodes_matching_fun nodes_ordered_def sort_order_of_def split del: if_split cong del: if_weak_cong)

lemma stakers_matching_fun:
  "stakers_matching q = (\<lambda>s. when_given (q ''minStake'')
        (num_ge (parseFloat (s_stakedAmount s)) (parseFloat (to_string (q ''minStake''))))
      \<and> when_given (q ''maxStake'')
          (num_le (parseFloat (s_stakedAmount s)) (parseFloat (to_string (q ''maxStake'')))))"
  by (simp add: fun_eq_iff stakers_matching_def)

lemma stakers_list_run:
  "stakers_list q d = (Ok (page_of (page_param q) (limit_param q)
            (stakers_ordered q (filter (stakers_matching q) (stakers d)))), d)"
  unfolding stakers_list_def Let_def stakers_ref_def
  by (simp add: run_steps split del: if_split)
    (simp add: stakers_matching_fun stakers_ordered_def sort_order_of_def split del: if_split cong del: if_weak_cong)

lemma transactions_matching_fun:
  "transactions_matching q = (\<lambda>tx.
      when_given (q ''txType'') (tx_txType tx = toUpperCase (to_string (q ''txType'')))
      \<and> when_given (q ''status'') (tx_status tx = toUpperCase (to_string (q ''status'')))
      \<and> when_given (q ''address'')
          (toLowerCase (tx_from tx) = toLowerCase (to_string (q ''address''))
           \<or> toLowerCase (tx_to tx) = toLowerCase (to_string (q ''address'')))
      \<and> when_given (q ''startDate'')
          (num_ge (Some (of_int (tx_timestamp tx))) (int_num (parseInt (to_string (q ''startDate'')))))
      \<and> when_given (q ''endDate'')
          (num_le (Some (of_int (tx_timestamp tx))) (int_num (parseInt (to_string (q ''endDate''))))))"
  by (simp add: fun_eq_iff transactions_matching_def)

lemma transactions_list_run:
  assumes "string_params q [''txType'', ''status'', ''address'']"
  shows "transactions_list q d = (Ok (page_of (page_param q) (limit_param q)
            (transactions_ordered q (filter (transactions_matching q) (transactions d)))), d)"
  unfolding transactions_list_def Let_def transactions_ref_def
  using assms
  by (simp add: run_steps string_params_def split del: if_split)
    (simp add: transactions_matching_fun transactions_ordered_def sort_order_of_def sort_key_of_def
      split del: if_split cong del: if_weak_cong)



lemma epochs_list_run:
  "epochs_list q d =
     (Ok \<lparr>data = map epoch_summary_of
                   (data (page_of (page_param q) (limit_param q) (epochs_ordered q (epochs d)))),
          pagination = pagination (page_of (page_param q) (limit_param q) (epochs_ordered q (epochs d)))\<rparr>, d)"
  unfolding epochs_list_def Let_def epochs_ref_def
  by (simp add: run_steps split del: if_split)
    (simp add: epochs_ordered_def sort_order_of_def epoch_summary_of_def
      split del: if_split cong del: if_weak_cong)

section \<open>Pagination\<close>








lemma length_sort_insert: "length (sort_insert c x ys) = Suc (length ys)"
  by (induction ys) auto

lemma length_js_sort_acc: "length (foldl (\<lambda>acc x. sort_insert c x acc) acc xs) = length acc + length xs"
  by (induction xs arbitrary: acc) (auto simp: length_sort_insert)

lemma length_js_sort: "length (js_sort c xs) = length xs"
  by (simp add: js_sort_def length_js_sort_acc)




section \<open>Page and limit\<close>






lemma oversized: "page_param oversized_query = 1 \<and> limit_param oversized_query = 100"
  by code_simp

section \<open>Single-record lookups\<close>

lemma find_cases:
  "(find P xs = None \<and> \<not> (\<exists>x \<in> set xs. P x)) \<or> (\<exists>x \<in> set xs. P x \<and> find P xs = Some x)"
  by (cases "find P xs") (auto simp: find_None_iff find_Some_iff)





lemma js_slice_take: "0 \<le> n \<Longrightarrow> js_slice 0 n xs = take (nat n) xs"
  by (auto simp: js_slice_def Let_def min_def)

lemma epochs_by_number_run:
  "epochs_by_number i d = (case find (\<lambda>e. Some (e_epochNumber e) = parseInt i) (epochs d) of
                        None \<Rightarrow> (Fail 404 ''Epoch not found'', d)
                      | Some e \<Rightarrow> (Ok (first_rewards e), d))"
  by (simp add: epochs_by_number_def epochs_ref_def try_catch_get try_catch_return Let_def
      first_rewards_def js_slice_take split: option.splits)




section \<open>Epoch payloads\<close>

lemma set_sort_insert: "set (sort_insert c x ys) = insert x (set ys)"
  by (induction ys) auto

lemma set_js_sort_acc: "set (foldl (\<lambda>acc x. sort_insert c x acc) acc xs) = set acc \<union> set xs"
  by (induction xs arbitrary: acc) (auto simp: set_sort_insert)

lemma set_js_sort: "set (js_sort c xs) = set xs"
  by (simp add: js_sort_def set_js_sort_acc)

lemma set_js_slice: "set (js_slice s e xs) \<subseteq> set xs"
  by (auto simp: js_slice_def Let_def dest: in_set_takeD in_set_dropD)

lemma set_page_of: "set (data (page_of pg lm xs)) \<subseteq> set xs"
  by (simp add: page_of_def set_js_slice)

lemma summarises_summary: "summarises (epoch_summary_of e) e"
  by (simp add: summarises_def epoch_summary_of_def rewards_count_def)

lemma truncates_first: "truncates (first_rewards e) e"
  by (simp add: truncates_def first_rewards_def split: option.splits)

text \<open>
  C10.  An item of \<open>GET /epochs\<close> is the summary of a stored epoch: it has no
  \<open>nodeRewards\<close> field, and its \<open>topNodeRewardsCount\<close> is the length of the epoch's
  \<open>nodeRewards\<close>.  \<open>GET /epochs/:epochNumber\<close> returns a stored epoch with all its fields
  but \<open>nodeRewards\<close>, which is cut to its first 50 entries.
\<close>

theorem epoch_rewards_bounded:
  "(\<exists>r. epochs_list q d = (Ok r, d) \<and> (\<forall>s \<in> set (data r). \<exists>e \<in> set (epochs d). summarises s e))
   \<and> (\<forall>body. fst (epochs_by_number i d) = Ok body \<longrightarrow>
         (\<exists>e \<in> set (epochs d). Some (e_epochNumber e) = parseInt i \<and> truncates body e))"
proof -
  have "set (data (page_of (page_param q) (limit_param q) (epochs_ordered q (epochs d)))) \<subseteq> set (epochs d)"
    using set_page_of[of "page_param q" "limit_param q" "epochs_ordered q (epochs d)"]
    by (simp add: epochs_ordered_def set_js_sort)
  then have a: "\<exists>r. epochs_list q d = (Ok r, d) \<and> (\<forall>s \<in> set (data r). \<exists>e \<in> set (epochs d). summarises s e)"
    using summarises_summary by (auto simp: epochs_list_run)
  have b: "\<forall>body. fst (epochs_by_number i d) = Ok body \<longrightarrow>
         (\<exists>e \<in> set (epochs d). Some (e_epochNumber e) = parseInt i \<and> truncates body e)"
  proof (intro allI impI)
    fix body
    assume ok: "fst (epochs_by_number i d) = Ok body"
    from find_cases[of "\<lambda>e. Some (e_epochNumber e) = parseInt i" "epochs d"] ok
    obtain e where e: "e \<in> set (epochs d)" "Some (e_epochNumber e) = parseInt i"
      "find (\<lambda>e. Some (e_epochNumber e) = parseInt i) (epochs d) = Some e"
      by (auto simp: epochs_by_number_run)
    with ok have "body = first_rewards e" by (simp add: epochs_by_number_run)
    with e truncates_first[of e] show "\<exists>e \<in> set (epochs d). Some (e_epochNumber e) = parseInt i \<and> truncates body e"
      by blast
  qed
  from a b show ?thesis by blast
qed

theorem epoch_rewards_bounded_witness:
  "(\<exists>r. epochs_list second_page_query example_db = (Ok r, example_db)
        \<and> map es_topNodeRewardsCount (data r) = [51])
   \<and> rewards_count (example_epoch 1 51) = 51
   \<and> fst (epochs_by_number ''1'' example_db) = Ok (example_epoch 1 50)
   \<and> truncates (example_epoch 1 50) (example_epoch 1 51)"
proof -
  have r: "epochs_list second_page_query example_db
            = (Ok \<lparr>data = [epoch_summary_of (example_epoch 1 51)],
                   pagination = \<lparr>p_page = 2, p_limit = 1, p_totalItems = 2, p_totalPages = 2,
                                 p_hasMore = False\<rparr>\<rparr>, example_db)"
    unfolding epochs_list_run by code_simp
  have c: "rewards_count (example_epoch 1 51) = 51" by code_simp
  have s: "es_topNodeRewardsCount (epoch_summary_of (example_epoch 1 51)) = 51" by code_simp
  have b: "fst (epochs_by_number ''1'' example_db) = Ok (example_epoch 1 50)"
    unfolding epochs_by_number_run by code_simp
  have "\<exists>e \<in> set (epochs example_db). Some (e_epochNumber e) = parseInt ''1'' \<and> truncates (example_epoch 1 50) e"
    using epoch_rewards_bounded[of second_page_query example_db "''1''"] b by blast
  moreover have "parseInt ''1'' = Some 1" by code_simp
  ultimately have t: "truncates (example_epoch 1 50) (example_epoch 1 51)"
    by (auto simp: example_db_def example_epoch_def)
  from r c s b t show ?thesis by simp
qed

section \<open>Empty filter values\<close>

lemma truthy_empty: "truthy (Some (QStr [])) = False" "truthy None = False"
  by (simp_all add: truthy_def)

lemma nodes_list_empty_status:
  "nodes_list (q(''status'' \<mapsto> QStr [])) = nodes_list (q(''status'' := None))"
  by (simp add: nodes_list_def page_param_def limit_param_def truthy_empty Let_def
      split del: if_split cong del: if_weak_cong)

lemma nodes_list_empty_nodeType:
  "nodes_list (q(''nodeType'' \<mapsto> QStr [])) = nodes_list (q(''nodeType'' := None))"
  by (simp add: nodes_list_def page_param_def limit_param_def truthy_empty Let_def
      split del: if_split cong del: if_weak_cong)

lemma nodes_list_empty_region:
  "nodes_list (q(''region'' \<mapsto> QStr [])) = nodes_list (q(''region'' := None))"
  by (simp add: nodes_list_def page_param_def limit_param_def truthy_empty Let_def
      split del: if_split cong del: if_weak_cong)

lemma nodes_list_empty:
  "k \<in> set [''status'', ''nodeType'', ''region''] \<Longrightarrow> nodes_list (q(k \<mapsto> QStr [])) = nodes_list (q(k := None))"
  using nodes_list_empty_status nodes_list_empty_nodeType nodes_list_empty_region
  by auto

lemma stakers_list_empty_minStake:
  "stakers_list (q(''minStake'' \<mapsto> QStr [])) = stakers_list (q(''minStake'' := None))"
  by (simp add: stakers_list_def page_param_def limit_param_def truthy_empty Let_def
      split del: if_split cong del: if_weak_cong)

lemma stakers_list_empty_maxStake:
  "stakers_list (q(''maxStake'' \<mapsto> QStr [])) = stakers_list (q(''maxStake'' := None))"
  by (simp add: stakers_list_def page_param_def limit_param_def truthy_empty Let_def
      split del: if_split cong del: if_weak_cong)

lemma stakers_list_empty:
  "k \<in> set [''minStake'', ''maxStake''] \<Longrightarrow> stakers_list (q(k \<mapsto> QStr [])) = stakers_list (q(k := None))"
  using stakers_list_empty_minStake stakers_list_empty_maxStake
  by auto

lemma transactions_list_empty_txType:
  "transactions_list (q(''txType'' \<mapsto> QStr [])) = transactions_list (q(''txType'' := None))"
  by (simp add: transactions_list_def page_param_def limit_param_def truthy_empty Let_def
      split del: if_split cong del: if_weak_cong)

lemma transactions_list_empty_status:
  "transactions_list (q(''status'' \<mapsto> QStr [])) = transactions_list (q(''status'' := None))"
  by (simp add: transactions_list_def page_param_def limit_param_def truthy_empty Let_def
      split del: if_split cong del: if_weak_cong)

lemma transactions_list_empty_address:
  "transactions_list (q(''address'' \<mapsto> QStr [])) = transactions_list (q(''address'' := None))"
  by (simp add: transactions_list_def page_param_def limit_param_def truthy_empty Let_def
      split del: if_split cong del: if_weak_cong)

lemma transactions_list_empty_startDate:
  "transactions_list (q(''startDate'' \<mapsto> QStr [])) = transactions_list (q(''startDate'' := None))"
  by (simp add: transactions_list_def page_param_def limit_param_def truthy_empty Let_def
      split del: if_split cong del: if_weak_cong)

lemma transactions_list_empty_endDate:
  "transactions_list (q(''endDate'' \<mapsto> QStr [])) = transactions_list (q(''endDate'' := None))"
  by (simp add: transactions_list_def page_param_def limit_param_def truthy_empty Let_def
      split del: if_split cong del: if_weak_cong)

lemma transactions_list_empty:
  "k \<in> set [''txType'', ''status'', ''address'', ''startDate'', ''endDate''] \<Longrightarrow> transactions_list (q(k \<mapsto> QStr [])) = transactions_list (q(k := None))"
  using transactions_list_empty_txType transactions_list_empty_status transactions_list_empty_address transactions_list_empty_startDate transactions_list_empty_endDate
  by auto

lemma health_records_list_empty_dataType:
  "health_records_list (q(''dataType'' \<mapsto> QStr [])) = health_records_list (q(''dataType'' := None))"
  by (simp add: health_records_list_def page_param_def limit_param_def truthy_empty Let_def
      split del: if_split cong del: if_weak_cong)

lemma health_records_list_empty_deviceType:
  "health_records_list (q(''deviceType'' \<mapsto> QStr [])) = health_records_list (q(''deviceType'' := None))"
  by (simp add: health_records_list_def page_param_def limit_param_def truthy_empty Let_def
      split del: if_split cong del: if_weak_cong)

lemma health_records_list_empty_validationStatus:
  "health_records_list (q(''validationStatus'' \<mapsto> QStr [])) = health_records_list (q(''validationStatus'' := None))"
  by (simp add: health_records_list_def page_param_def limit_param_def truthy_empty Let_def
      split del: if_split cong del: if_weak_cong)

lemma health_records_list_empty_userAddress:
  "health_records_list (q(''userAddress'' \<mapsto> QStr [])) = health_records_list (q(''userAddress'' := None))"
  by (simp add: health_records_list_def page_param_def limit_param_def truthy_empty Let_def
      split del: if_split cong del: if_weak_cong)

lemma health_records_list_empty_startDate:
  "health_records_list (q(''startDate'' \<mapsto> QStr [])) = health_records_list (q(''startDate'' := None))"
  by (simp add: health_records_list_def page_param_def limit_param_def truthy_empty Let_def
      split del: if_split cong del: if_weak_cong)

lemma health_records_list_empty_endDate:
  "health_records_list (q(''endDate'' \<mapsto> QStr [])) = health_records_list (q(''endDate'' := None))"
  by (simp add: health_records_list_def page_param_def limit_param_def truthy_empty Let_def
      split del: if_split cong del: if_weak_cong)

lemma health_records_list_empty:
  "k \<in> set [''dataType'', ''deviceType'', ''validationStatus'', ''userAddress'', ''startDate'', ''endDate''] \<Longrightarrow> health_records_list (q(k \<mapsto> QStr [])) = health_records_list (q(k := None))"
  using health_records_list_empty_dataType health_records_list_empty_deviceType health_records_list_empty_validationStatus health_records_list_empty_userAddress health_records_list_empty_startDate health_records_list_empty_endDate
  by auto

lemma int_digits_nonempty: "int_digits n \<noteq> []"
  by (subst int_digits.simps) simp

lemma string_of_param_nonempty:
  "v \<noteq> PString [] \<Longrightarrow> string_of_param v \<noteq> []"
  by (cases v) (simp_all add: string_of_param_def int_to_string_def int_digits_nonempty)

lemma search_params_entries:
  "(key, s) \<in> set (search_params params) \<Longrightarrow>
     s \<noteq> [] \<and> (\<exists>v. (key, v) \<in> set params \<and> v \<noteq> PUndefined \<and> v \<noteq> PNull \<and> v \<noteq> PString []
                     \<and> s = string_of_param v)"
  by (auto simp: search_params_def string_of_param_nonempty)

text \<open>
  C3.  On every list endpoint and for every filter parameter, the request that carries the
  parameter with the empty string is answered exactly as the request without it (same
  data, same pagination); and every entry the client's query builder emits has a
  non-empty value that comes from a parameter which is not \<open>undefined\<close>, \<open>null\<close> or
  the empty string.
\<close>

theorem empty_filter_not_applied:
  "(k \<in> set [''status'', ''nodeType'', ''region''] \<longrightarrow>
      nodes_list (q(k \<mapsto> QStr [])) d = nodes_list (q(k := None)) d)
   \<and> (k \<in> set [''minStake'', ''maxStake''] \<longrightarrow>
      stakers_list (q(k \<mapsto> QStr [])) d = stakers_list (q(k := None)) d)
   \<and> (k \<in> set [''txType'', ''status'', ''address'', ''startDate'', ''endDate''] \<longrightarrow>
      transactions_list (q(k \<mapsto> QStr [])) d = transactions_list (q(k := None)) d)
   \<and> (k \<in> set [''dataType'', ''deviceType'', ''validationStatus'', ''userAddress'', ''startDate'',
                  ''endDate''] \<longrightarrow>
      health_records_list (q(k \<mapsto> QStr [])) d = health_records_list (q(k := None)) d)
   \<and> (\<forall>(key, s) \<in> set (search_params params).
        s \<noteq> [] \<and> (\<exists>v. (key, v) \<in> set params \<and> v \<noteq> PUndefined \<and> v \<noteq> PNull \<and> v \<noteq> PString []
                        \<and> s = string_of_param v))"
proof -
  have e: "\<forall>(key, s) \<in> set (search_params params).
        s \<noteq> [] \<and> (\<exists>v. (key, v) \<in> set params \<and> v \<noteq> PUndefined \<and> v \<noteq> PNull \<and> v \<noteq> PString []
                        \<and> s = string_of_param v)"
    using search_params_entries[of _ _ params] by blast
  show ?thesis
    using nodes_list_empty[of k q] stakers_list_empty[of k q] transactions_list_empty[of k q]
      health_records_list_empty[of k q] e
    by simp
qed

theorem empty_filter_not_applied_witness:
  "''status'' \<in> set [''status'', ''nodeType'', ''region'']
   \<and> nodes_list (second_page_query(''status'' \<mapsto> QStr [])) example_db
       = nodes_list (second_page_query(''status'' := None)) example_db
   \<and> ''status'' \<in> set [''txType'', ''status'', ''address'', ''startDate'', ''endDate'']
   \<and> transactions_list (second_page_query(''status'' \<mapsto> QStr [])) example_db
       = transactions_list (second_page_query(''status'' := None)) example_db
   \<and> ''minStake'' \<in> set [''minStake'', ''maxStake'']
   \<and> stakers_list (second_page_query(''minStake'' \<mapsto> QStr [])) example_db
       = stakers_list (second_page_query(''minStake'' := None)) example_db
   \<and> ''endDate'' \<in> set [''dataType'', ''deviceType'', ''validationStatus'', ''userAddress'',
                          ''startDate'', ''endDate'']
   \<and> health_records_list (second_page_query(''endDate'' \<mapsto> QStr [])) example_db
       = health_records_list (second_page_query(''endDate'' := None)) example_db
   \<and> search_params example_params = [(''page'', ''2''), (''nodeType'', ''validator'')]
   \<and> buildQueryString example_params = ''?page=2&nodeType=validator''
   \<and> list_all (\<lambda>(key, s). s \<noteq> []) (search_params example_params)"
proof -
  have s: "search_params example_params = [(''page'', ''2''), (''nodeType'', ''validator'')]"
    by code_simp
  have b: "buildQueryString example_params = ''?page=2&nodeType=validator''"
    by code_simp
  have "\<forall>(key, s) \<in> set (search_params example_params). s \<noteq> []"
    using empty_filter_not_applied[of "''status''" second_page_query example_db example_params,
        THEN conjunct2, THEN conjunct2, THEN conjunct2, THEN conjunct2]
    by fast
  then have l: "list_all (\<lambda>(key, s). s \<noteq> []) (search_params example_params)"
    by (simp add: list_all_iff)
  show ?thesis
    using empty_filter_not_applied[of "''status''" second_page_query example_db example_params]
      empty_filter_not_applied[of "''minStake''" second_page_query example_db example_params]
      empty_filter_not_applied[of "''endDate''" second_page_query example_db example_params]
      s b l
    by simp
qed

section \<open>The store after a request\<close>

lemma keeps_return: "post x \<Longrightarrow> keeps (js_return x) post"
  by (simp add: keeps_def js_return_def)

lemma keeps_throw: "keeps js_throw post"
  by (simp add: keeps_def js_throw_def)

lemma keeps_lift: "keeps (js_lift v) (\<lambda>x. True)"
  by (cases v) (simp_all add: keeps_def js_lift_def js_return_def js_throw_def)

lemma keeps_read: "keeps (\<lambda>d. (Some (f d), d)) (\<lambda>x. True)"
  by (simp add: keeps_def)

lemma keeps_bind:
  assumes "keeps m mid" "\<And>x. mid x \<Longrightarrow> keeps (f x) post"
  shows "keeps (js_bind m f) post"
  unfolding keeps_def
proof
  fix d
  from assms(1) have m: "snd (m d) = d" "case fst (m d) of Some x \<Rightarrow> mid x | None \<Rightarrow> True"
    by (simp_all add: keeps_def)
  show "snd (js_bind m f d) = d \<and> (case fst (js_bind m f d) of Some x \<Rightarrow> post x | None \<Rightarrow> True)"
  proof (cases "fst (m d)")
    case None
    with m show ?thesis by (cases "m d") (simp add: js_bind_def)
  next
    case (Some x)
    with m have "mid x" by simp
    then have "keeps (f x) post" by (rule assms(2))
    then have "snd (f x d) = d \<and> (case fst (f x d) of Some y \<Rightarrow> post y | None \<Rightarrow> True)"
      by (simp add: keeps_def)
    with Some m show ?thesis by (cases "m d") (simp add: js_bind_def)
  qed
qed

lemma keeps_bind_ref:
  "keeps m is_local \<Longrightarrow> (\<And>x. is_local x \<Longrightarrow> keeps (f x) post) \<Longrightarrow> keeps (js_bind m f) post"
  by (rule keeps_bind)

lemma keeps_bind_page:
  "keeps m (\<lambda>p. is_local (fst p)) \<Longrightarrow> (\<And>r pg. is_local r \<Longrightarrow> keeps (f r pg) post)
   \<Longrightarrow> keeps (js_bind m (\<lambda>(r, pg). f r pg)) post"
  by (rule keeps_bind [where mid = "\<lambda>p. is_local (fst p)"]) auto

lemma keeps_bind_pair:
  "keeps m (\<lambda>x. True) \<Longrightarrow> (\<And>a b. keeps (f a b) post) \<Longrightarrow> keeps (js_bind m (\<lambda>(a, b). f a b)) post"
  by (rule keeps_bind [where mid = "\<lambda>x. True"]) auto

lemma keeps_bind_any:
  "keeps m (\<lambda>x. True) \<Longrightarrow> (\<And>x. keeps (f x) post) \<Longrightarrow> keeps (js_bind m f) post"
  by (rule keeps_bind)

lemma keeps_if: "keeps a post \<Longrightarrow> keeps b post \<Longrightarrow> keeps (if c then a else b) post"
  by simp

lemma keeps_get: "keeps (arr_get r) (\<lambda>x. True)"
  by (simp add: keeps_def arr_get_def)

lemma keeps_spread: "keeps (arr_spread r) is_local"
  by (simp add: keeps_def arr_spread_def arr_get_def js_bind_def js_return_def is_local_def)

lemma keeps_filter: "keeps (arr_filter p r) is_local"
  by (auto simp: keeps_def arr_filter_def arr_get_def js_bind_def js_return_def js_lift_def
      js_throw_def is_local_def split: option.splits)

lemma keeps_slice: "keeps (arr_slice s e r) is_local"
  by (simp add: keeps_def arr_slice_def arr_get_def js_bind_def js_return_def is_local_def)

lemma keeps_map: "keeps (arr_map f r) is_local"
  by (simp add: keeps_def arr_map_def arr_get_def js_bind_def js_return_def is_local_def)

lemma keeps_length: "keeps (arr_length r) (\<lambda>x. True)"
  by (simp add: keeps_def arr_length_def arr_get_def js_bind_def js_return_def)

lemma keeps_sort: "is_local r \<Longrightarrow> keeps (arr_sort c r) is_local"
  by (cases r) (simp_all add: keeps_def arr_sort_def is_local_def)

lemma keeps_reverse: "is_local r \<Longrightarrow> keeps (arr_reverse r) is_local"
  by (cases r) (simp_all add: keeps_def arr_reverse_def is_local_def)

lemma keeps_paginate: "keeps (paginate pg lm r) (\<lambda>p. is_local (fst p))"
  by (simp add: keeps_def paginate_def arr_length_def arr_slice_def arr_get_def js_bind_def
      js_return_def is_local_def Let_def)

lemma leaves_try_catch: "keeps m (\<lambda>x. True) \<Longrightarrow> leaves_store (try_catch m c)"
  unfolding leaves_store_def keeps_def try_catch_def
proof
  fix d
  assume a: "\<forall>d. snd (m d) = d \<and> (case fst (m d) of None \<Rightarrow> True | Some x \<Rightarrow> True)"
  then have "snd (m d) = d" by simp
  then show "snd (case m d of (None, d') \<Rightarrow> (c, d') | (Some r, d') \<Rightarrow> (r, d')) = d"
    by (cases "m d") (auto split: option.splits)
qed

lemmas keeps_rules = keeps_bind_ref keeps_bind_page keeps_bind_pair keeps_bind_any keeps_if
  keeps_return keeps_throw keeps_lift keeps_read keeps_get keeps_spread keeps_filter keeps_slice
  keeps_map keeps_length keeps_sort keeps_reverse keeps_paginate TrueI

lemma nodes_list_leaves: "leaves_store (nodes_list q)"
  unfolding nodes_list_def Let_def
  by (rule leaves_try_catch) (rule keeps_rules | assumption)+

lemma stakers_list_leaves: "leaves_store (stakers_list q)"
  unfolding stakers_list_def Let_def
  by (rule leaves_try_catch) (rule keeps_rules | assumption)+

lemma transactions_list_leaves: "leaves_store (transactions_list q)"
  unfolding transactions_list_def Let_def
  by (rule leaves_try_catch) (rule keeps_rules | assumption)+

lemma health_records_list_leaves: "leaves_store (health_records_list q)"
  unfolding health_records_list_def Let_def
  by (rule leaves_try_catch) (rule keeps_rules | assumption)+

lemma epochs_list_leaves: "leaves_store (epochs_list q)"
  unfolding epochs_list_def Let_def
  by (rule leaves_try_catch) (rule keeps_rules | assumption)+

lemma nodes_stats_leaves: "leaves_store nodes_stats"
  unfolding nodes_stats_def Let_def
  by (rule leaves_try_catch) (rule keeps_rules | assumption)+

lemma stakers_stats_leaves: "leaves_store stakers_stats"
  unfolding stakers_stats_def Let_def
  by (rule leaves_try_catch) (rule keeps_rules | assumption)+

lemma health_records_stats_leaves: "leaves_store (health_records_stats now iso_date)"
  unfolding health_records_stats_def Let_def
  by (rule leaves_try_catch) (rule keeps_rules | assumption)+

lemma epochs_stats_leaves: "leaves_store epochs_stats"
  unfolding epochs_stats_def Let_def
  by (rule leaves_try_catch) (rule keeps_rules | assumption)+

lemma transactions_stats_leaves: "leaves_store transactions_stats"
  unfolding transactions_stats_def Let_def
  by (rule leaves_try_catch) (rule keeps_rules | assumption)+

lemma stats_leaves: "leaves_store stats"
  unfolding stats_def Let_def
  by (rule leaves_try_catch) (rule keeps_rules | assumption)+

lemma stats_overview_leaves: "leaves_store stats_overview"
  unfolding stats_overview_def Let_def
  by (rule leaves_try_catch) (rule keeps_rules | assumption)+

text \<open>
  C8.  No list or stats request changes a stored collection: after each of the five list
  handlers and the seven stats handlers the store is the store before the call, every
  array with the same records in the same order (a sort runs on a copy).
\<close>

theorem handlers_leave_store:
  "leaves_store (nodes_list q) \<and> leaves_store (stakers_list q)
   \<and> leaves_store (transactions_list q) \<and> leaves_store (health_records_list q)
   \<and> leaves_store (epochs_list q)
   \<and> leaves_store nodes_stats \<and> leaves_store stakers_stats
   \<and> leaves_store (health_records_stats now iso_date) \<and> leaves_store epochs_stats
   \<and> leaves_store transactions_stats \<and> leaves_store stats \<and> leaves_store stats_overview"
  using nodes_list_leaves stakers_list_leaves transactions_list_leaves health_records_list_leaves
    epochs_list_leaves nodes_stats_leaves stakers_stats_leaves health_records_stats_leaves
    epochs_stats_leaves transactions_stats_leaves stats_leaves stats_overview_leaves
  by blast

text \<open>The store does record a mutation: sorting a stored array itself, without the copy,
  changes it.\<close>

lemma sort_without_copy_changes_store:
  "nodes (snd (arr_sort by_node_id nodes_ref example_db)) \<noteq> nodes example_db"
  by code_simp

section \<open>The order a sort leaves\<close>

lemma sort_insert_ordered:
  assumes asym: "\<And>a b. a \<in> S \<Longrightarrow> b \<in> S \<Longrightarrow> 0 < c a b \<Longrightarrow> \<not> 0 < c b a"
    and tr: "\<And>a b z. a \<in> S \<Longrightarrow> b \<in> S \<Longrightarrow> z \<in> S \<Longrightarrow> \<not> 0 < c b a \<Longrightarrow> \<not> 0 < c z b \<Longrightarrow> \<not> 0 < c z a"
    and x: "x \<in> S" and ys: "set ys \<subseteq> S"
    and sorted: "sorted_wrt (\<lambda>a b. \<not> 0 < c b a) ys"
  shows "sorted_wrt (\<lambda>a b. \<not> 0 < c b a) (sort_insert c x ys)"
  using ys sorted
proof (induction ys)
  case Nil
  then show ?case by simp
next
  case (Cons y ys)
  have y: "y \<in> S" and ys': "set ys \<subseteq> S" using Cons.prems(1) by auto
  show ?case
  proof (cases "0 < c y x")
    case True
    have "sorted_wrt (\<lambda>a b. \<not> 0 < c b a) (sort_insert c x ys)"
      using Cons.IH ys' Cons.prems(2) by simp
    moreover have "\<not> 0 < c x y" using asym[OF y x True] .
    ultimately show ?thesis using True Cons.prems(2) by (auto simp: set_sort_insert)
  next
    case False
    have "\<not> 0 < c z x" if "z \<in> set ys" for z
    proof -
      have zS: "z \<in> S" using that ys' by auto
      have "\<not> 0 < c z y" using Cons.prems(2) that by auto
      with tr[OF x y zS False] show ?thesis by simp
    qed
    then show ?thesis using False Cons.prems(2) by auto
  qed
qed

lemma js_sort_acc_ordered:
  assumes asym: "\<And>a b. a \<in> S \<Longrightarrow> b \<in> S \<Longrightarrow> 0 < c a b \<Longrightarrow> \<not> 0 < c b a"
    and tr: "\<And>a b z. a \<in> S \<Longrightarrow> b \<in> S \<Longrightarrow> z \<in> S \<Longrightarrow> \<not> 0 < c b a \<Longrightarrow> \<not> 0 < c z b \<Longrightarrow> \<not> 0 < c z a"
  shows "set xs \<subseteq> S \<Longrightarrow> set acc \<subseteq> S \<Longrightarrow> sorted_wrt (\<lambda>a b. \<not> 0 < c b a) acc
         \<Longrightarrow> sorted_wrt (\<lambda>a b. \<not> 0 < c b a) (foldl (\<lambda>acc x. sort_insert c x acc) acc xs)"
proof (induction xs arbitrary: acc)
  case Nil
  then show ?case by simp
next
  case (Cons x xs)
  have x: "x \<in> S" and xs: "set xs \<subseteq> S" using Cons.prems(1) by simp_all
  have 1: "sorted_wrt (\<lambda>a b. \<not> 0 < c b a) (sort_insert c x acc)"
    by (rule sort_insert_ordered[OF asym tr x Cons.prems(2) Cons.prems(3)])
  have 2: "set (sort_insert c x acc) \<subseteq> S"
    using x Cons.prems(2) by (simp add: set_sort_insert)
  show ?case using Cons.IH[OF xs 2 1] by simp
qed

lemma js_sort_ordered:
  assumes asym: "\<And>a b. a \<in> set xs \<Longrightarrow> b \<in> set xs \<Longrightarrow> 0 < c a b \<Longrightarrow> \<not> 0 < c b a"
    and tr: "\<And>a b z. a \<in> set xs \<Longrightarrow> b \<in> set xs \<Longrightarrow> z \<in> set xs \<Longrightarrow> \<not> 0 < c b a \<Longrightarrow> \<not> 0 < c z b \<Longrightarrow> \<not> 0 < c z a"
  shows "sorted_wrt (\<lambda>a b. \<not> 0 < c a b) (js_sort c xs)"
proof -
  have "sorted_wrt (\<lambda>a b. \<not> 0 < c b a) (foldl (\<lambda>acc x. sort_insert c x acc) [] xs)"
  proof (rule js_sort_acc_ordered[where S = "set xs"])
    show "\<And>a b. a \<in> set xs \<Longrightarrow> b \<in> set xs \<Longrightarrow> 0 < c a b \<Longrightarrow> \<not> 0 < c b a"
      by (rule asym)
    show "\<And>a b z. a \<in> set xs \<Longrightarrow> b \<in> set xs \<Longrightarrow> z \<in> set xs \<Longrightarrow> \<not> 0 < c b a \<Longrightarrow> \<not> 0 < c z b
            \<Longrightarrow> \<not> 0 < c z a"
      by (rule tr)
  qed simp_all
  then show ?thesis by (simp add: js_sort_def sorted_wrt_rev)
qed

text \<open>Sorting by a key, largest first, and smallest first.\<close>

lemma js_sort_descending:
  fixes f :: "'a \<Rightarrow> 'k::linorder"
  assumes key: "\<And>a b. a \<in> set xs \<Longrightarrow> b \<in> set xs \<Longrightarrow> (0 < c a b) = (f a < f b)"
  shows "sorted_wrt (\<lambda>a b. f b \<le> f a) (js_sort c xs)"
proof -
  have s: "sorted_wrt (\<lambda>a b. \<not> 0 < c a b) (js_sort c xs)"
  proof (rule js_sort_ordered)
    fix a b assume "a \<in> set xs" "b \<in> set xs" "0 < c a b"
    then show "\<not> 0 < c b a" by (simp add: key)
  next
    fix a b z assume "a \<in> set xs" "b \<in> set xs" "z \<in> set xs" "\<not> 0 < c b a" "\<not> 0 < c z b"
    then show "\<not> 0 < c z a" by (simp add: key)
  qed
  show ?thesis
  proof (rule sorted_wrt_mono_rel[OF _ s])
    fix a b assume "a \<in> set (js_sort c xs)" "b \<in> set (js_sort c xs)" "\<not> 0 < c a b"
    then show "f b \<le> f a" by (simp add: set_js_sort key)
  qed
qed

lemma js_sort_ascending:
  fixes f :: "'a \<Rightarrow> 'k::linorder"
  assumes key: "\<And>a b. a \<in> set xs \<Longrightarrow> b \<in> set xs \<Longrightarrow> (0 < c a b) = (f b < f a)"
  shows "sorted_wrt (\<lambda>a b. f a \<le> f b) (js_sort c xs)"
proof -
  have s: "sorted_wrt (\<lambda>a b. \<not> 0 < c a b) (js_sort c xs)"
  proof (rule js_sort_ordered)
    fix a b assume "a \<in> set xs" "b \<in> set xs" "0 < c a b"
    then show "\<not> 0 < c b a" by (simp add: key)
  next
    fix a b z assume "a \<in> set xs" "b \<in> set xs" "z \<in> set xs" "\<not> 0 < c b a" "\<not> 0 < c z b"
    then show "\<not> 0 < c z a" by (simp add: key)
  qed
  show ?thesis
  proof (rule sorted_wrt_mono_rel[OF _ s])
    fix a b assume "a \<in> set (js_sort c xs)" "b \<in> set (js_sort c xs)" "\<not> 0 < c a b"
    then show "f a \<le> f b" by (simp add: set_js_sort key)
  qed
qed

lemma distinct_js_sort: "distinct xs \<Longrightarrow> distinct (js_sort c xs)"
proof -
  assume "distinct xs"
  then have "card (set (js_sort c xs)) = length (js_sort c xs)"
    by (simp add: set_js_sort length_js_sort distinct_card)
  then show ?thesis by (rule card_distinct)
qed

lemma sorted_default: "sorted (js_sort default_compare xs)"
proof -
  have "sorted_wrt (\<lambda>a b. a \<le> b) (js_sort default_compare xs)"
    by (rule js_sort_ascending[where f = "\<lambda>x. x"]) (auto simp: default_compare_def)
  then show ?thesis by simp
qed

lemma set_set_values: "set (set_values xs) = set xs"
  by (simp add: set_values_def)

lemma distinct_set_values: "distinct (set_values xs)"
  by (simp add: set_values_def)

lemma sort_set_values: "js_sort default_compare (set_values xs) = sorted_list_of_set (set xs)"
  by (rule sorted_distinct_set_unique)
    (simp_all add: sorted_default distinct_js_sort distinct_set_values set_js_sort set_set_values)

section \<open>The data types endpoint\<close>

lemma health_records_data_types_run:
  "health_records_data_types d
     = (Ok (sorted_list_of_set (set (map hr_dataType (healthRecords d)))), d)"
  by (simp add: health_records_data_types_def healthRecords_ref_def try_catch_get local_ops
      try_catch_return sort_set_values)

lemma randomChoice_member:
  assumes "0 \<le> r" "r < 1" "arr \<noteq> []"
  shows "randomChoice r arr \<in> set arr"
proof -
  have "r * of_nat (length arr) < of_nat (length arr)" using assms by simp
  then have "\<lfloor>r * of_nat (length arr)\<rfloor> < int (length arr)" by (simp add: floor_less_iff)
  moreover have "0 \<le> \<lfloor>r * of_nat (length arr)\<rfloor>" using assms by simp
  ultimately have "nat \<lfloor>r * of_nat (length arr)\<rfloor> < length arr" by linarith
  then show ?thesis by (simp add: randomChoice_def)
qed

lemma generated_data_types:
  "map hr_dataType (generateHealthRecords u now k count)
     = map (\<lambda>i. randomChoice (u (k + 8000 + 8 * (i - 1))) health_data_types) [1..<count + 1]"
  by (simp add: generateHealthRecords_def generate_health_record_def Let_def)

lemma generated_data_types_known:
  assumes "draws_in_range u"
  shows "set (map hr_dataType (generateHealthRecords u now k count)) \<subseteq> set health_data_types"
proof -
  have "randomChoice (u j) health_data_types \<in> set health_data_types" for j
    using assms by (intro randomChoice_member) (simp_all add: draws_in_range_def health_data_types_def)
  then show ?thesis unfolding generated_data_types by auto
qed

text \<open>
  C5, as the code has it.  \<open>GET /health-records/data-types\<close> returns the distinct data
  types that occur in the collection, sorted ascending.  For a generated collection they
  are among the 8 fixed strings, and they are all 8 exactly when each of them occurs in
  some record.
\<close>

theorem data_types_observed:
  "health_records_data_types d
     = (Ok (sorted_list_of_set (set (map hr_dataType (healthRecords d)))), d)
   \<and> (draws_in_range u \<longrightarrow>
        set (map hr_dataType (generateHealthRecords u now k count)) \<subseteq> set health_data_types
        \<and> (fst (health_records_data_types (with_health_records d (generateHealthRecords u now k count)))
              = Ok (sorted_list_of_set (set health_data_types))
            \<longleftrightarrow> set health_data_types \<subseteq> set (map hr_dataType (generateHealthRecords u now k count))))"
proof -
  let ?g = "generateHealthRecords u now k count"
  have inj: "sorted_list_of_set A = sorted_list_of_set B \<longleftrightarrow> A = B" if "finite A" "finite B"
    for A B :: "string set"
    using that sorted_list_of_set_inject by blast
  have a: "health_records_data_types d
     = (Ok (sorted_list_of_set (set (map hr_dataType (healthRecords d)))), d)"
    by (rule health_records_data_types_run)
  have b: "set (map hr_dataType ?g) \<subseteq> set health_data_types" if "draws_in_range u"
    using that by (rule generated_data_types_known)
  have c: "fst (health_records_data_types (with_health_records d ?g))
             = Ok (sorted_list_of_set (set health_data_types))
           \<longleftrightarrow> set health_data_types \<subseteq> set (map hr_dataType ?g)" if "draws_in_range u"
  proof -
    have "fst (health_records_data_types (with_health_records d ?g))
            = Ok (sorted_list_of_set (set (map hr_dataType ?g)))"
      by (simp add: health_records_data_types_run with_health_records_def)
    moreover have "sorted_list_of_set (set (map hr_dataType ?g)) = sorted_list_of_set (set health_data_types)
           \<longleftrightarrow> set (map hr_dataType ?g) = set health_data_types"
      by (rule inj) simp_all
    ultimately show ?thesis using b[OF that] by auto
  qed
  from a b c show ?thesis by blast
qed

theorem data_types_observed_witness:
  "draws_in_range cycling_draws
   \<and> map hr_dataType (generateHealthRecords cycling_draws 1700000000000 0 3)
       = [''STRESS'', ''HEART_RATE'', ''STEPS'']
   \<and> fst (health_records_data_types
            (with_health_records example_db (generateHealthRecords cycling_draws 1700000000000 0 3)))
       = Ok [''HEART_RATE'', ''STEPS'', ''STRESS'']
   \<and> set (map hr_dataType (generateHealthRecords cycling_draws 1700000000000 0 3))
       \<subseteq> set health_data_types"
proof -
  have r: "draws_in_range cycling_draws"
    by (simp add: draws_in_range_def cycling_draws_def)
  have c: "randomChoice (6 / 7) health_data_types = ''STRESS''"
    "randomChoice 0 health_data_types = ''HEART_RATE''"
    "randomChoice (1 / 7) health_data_types = ''STEPS''"
    by code_simp+
  have "map hr_dataType (generateHealthRecords cycling_draws 1700000000000 0 3)
       = [randomChoice (6 / 7) health_data_types, randomChoice 0 health_data_types,
          randomChoice (1 / 7) health_data_types]"
    unfolding generated_data_types by (simp add: upt_rec cycling_draws_def)
  then have g: "map hr_dataType (generateHealthRecords cycling_draws 1700000000000 0 3)
       = [''STRESS'', ''HEART_RATE'', ''STEPS'']"
    by (simp only: c)
  have s: "sorted_list_of_set (set [''STRESS'', ''HEART_RATE'', ''STEPS''])
             = [''HEART_RATE'', ''STEPS'', ''STRESS'']"
    by code_simp
  show ?thesis
    using data_types_observed[of "with_health_records example_db
        (generateHealthRecords cycling_draws 1700000000000 0 3)" cycling_draws 1700000000000 0 3] r
    by (simp add: g s with_health_records_def)
qed

text \<open>One generated record: the endpoint returns one data type, not the 8.\<close>

theorem data_types_counterexample:
  "draws_in_range zero_draws
   \<and> fst (health_records_data_types
            (with_health_records example_db (generateHealthRecords zero_draws 1700000000000 0 1)))
       = Ok [''HEART_RATE'']
   \<and> length health_data_types = 8"
proof -
  have r: "draws_in_range zero_draws"
    by (simp add: draws_in_range_def zero_draws_def)
  have c: "randomChoice 0 health_data_types = ''HEART_RATE''"
    by code_simp
  have "map hr_dataType (generateHealthRecords zero_draws 1700000000000 0 1)
          = [randomChoice 0 health_data_types]"
    unfolding generated_data_types by (simp add: upt_rec zero_draws_def)
  then have g: "map hr_dataType (generateHealthRecords zero_draws 1700000000000 0 1) = [''HEART_RATE'']"
    by (simp only: c)
  have s: "sorted_list_of_set (set [''HEART_RATE'']) = [''HEART_RATE'']"
    by simp
  have l: "length health_data_types = 8" by (simp add: health_data_types_def)
  have "fst (health_records_data_types
            (with_health_records example_db (generateHealthRecords zero_draws 1700000000000 0 1)))
       = Ok (sorted_list_of_set (set (map hr_dataType
               (generateHealthRecords zero_draws 1700000000000 0 1))))"
    by (simp add: health_records_data_types_run with_health_records_def)
  then have "fst (health_records_data_types
            (with_health_records example_db (generateHealthRecords zero_draws 1700000000000 0 1)))
       = Ok [''HEART_RATE'']"
    by (simp only: g s)
  with r l show ?thesis by blast
qed

section \<open>Sorting numeric strings\<close>

lemma compare_parsed_numeric:
  assumes "field a key = JStr s" "parseFloat s = Some x" "field b key = JStr t" "parseFloat t = Some y"
    "so \<noteq> Some (QStr ''asc'')"
  shows "(0 < compare_parsed so (field a key) (field b key)) = (x < y)"
  using assms
  by (simp add: compare_parsed_def parseFloat_val_def js_lt_def to_number_def num_lt_def Let_def)

lemma numeric_strings_member:
  assumes "numeric_strings field key xs" "a \<in> set xs"
  shows "\<exists>s x. field a key = JStr s \<and> parseFloat s = Some x"
proof -
  from assms have "case field a key of JStr s \<Rightarrow> parseFloat s \<noteq> None | _ \<Rightarrow> False"
    by (simp add: numeric_strings_def list_all_iff)
  then show ?thesis by (cases "field a key") auto
qed

lemma sorted_descending_numeric:
  assumes num: "numeric_strings field key xs" and desc: "so \<noteq> Some (QStr ''asc'')"
  shows "non_increasing (map (parsed field key)
            (js_sort (\<lambda>a b. compare_parsed so (field a key) (field b key)) xs))"
proof -
  have key: "(0 < compare_parsed so (field a key) (field b key)) = (parsed field key a < parsed field key b)"
    if "a \<in> set xs" "b \<in> set xs" for a b
  proof -
    from numeric_strings_member[OF num that(1)] numeric_strings_member[OF num that(2)]
    obtain s x t y where
      "field a key = JStr s" "parseFloat s = Some x" "field b key = JStr t" "parseFloat t = Some y"
      by blast
    then show ?thesis
      using compare_parsed_numeric[of field a key s x b t y so] desc
      by (simp add: parsed_def parseFloat_val_def)
  qed
  have "sorted_wrt (\<lambda>a b. parsed field key b \<le> parsed field key a)
          (js_sort (\<lambda>a b. compare_parsed so (field a key) (field b key)) xs)"
    by (rule js_sort_descending) (rule key)
  then show ?thesis by (simp add: non_increasing_def sorted_wrt_map)
qed

lemma non_increasing_slice: "non_increasing (map f xs) \<Longrightarrow> non_increasing (map f (js_slice s e xs))"
proof -
  assume "non_increasing (map f xs)"
  then have "sorted_wrt (\<lambda>a b. f b \<le> f a) xs" by (simp add: non_increasing_def sorted_wrt_map)
  then have "sorted_wrt (\<lambda>a b. f b \<le> f a) (take (nat (e' - s')) (drop (nat s') xs))" for s' e' :: int
    by (simp add: sorted_wrt_take sorted_wrt_drop)
  then show ?thesis by (simp add: non_increasing_def sorted_wrt_map js_slice_def Let_def)
qed

lemma numeric_strings_filter:
  "numeric_strings field key xs \<Longrightarrow> numeric_strings field key (filter P xs)"
  by (simp add: numeric_strings_def list_all_iff)

text \<open>The node, staker and transaction lists, sorted descending by a field of
  numeric-looking strings, never increase in the parsed value.\<close>

lemma parsing_lists_sorted:
  assumes "descending_request q"
  shows "numeric_strings node_field (to_string (q ''sortBy'')) (nodes d) \<Longrightarrow>
           string_params q [''status'', ''nodeType'', ''region''] \<Longrightarrow>
           \<exists>r. nodes_list q d = (Ok r, d)
             \<and> non_increasing (map (parsed node_field (to_string (q ''sortBy''))) (data r))"
    and "numeric_strings staker_field (to_string (q ''sortBy'')) (stakers d) \<Longrightarrow>
           \<exists>r. stakers_list q d = (Ok r, d)
             \<and> non_increasing (map (parsed staker_field (to_string (q ''sortBy''))) (data r))"
    and "numeric_strings transaction_field (to_string (q ''sortBy'')) (transactions d) \<Longrightarrow>
           string_params q [''txType'', ''status'', ''address''] \<Longrightarrow>
           \<exists>r. transactions_list q d = (Ok r, d)
             \<and> non_increasing (map (parsed transaction_field (to_string (q ''sortBy''))) (data r))"
proof -
  from assms have t: "truthy (q ''sortBy'')" and so: "sort_order_of q \<noteq> Some (QStr ''asc'')"
    by (simp_all add: descending_request_def)
  from t have k: "sort_key_of q = to_string (q ''sortBy'')"
    by (auto simp: sort_key_of_def truthy_def split: option.splits)
  show "numeric_strings node_field (to_string (q ''sortBy'')) (nodes d) \<Longrightarrow>
           string_params q [''status'', ''nodeType'', ''region''] \<Longrightarrow>
           \<exists>r. nodes_list q d = (Ok r, d)
             \<and> non_increasing (map (parsed node_field (to_string (q ''sortBy''))) (data r))"
    using t so
    by (simp add: nodes_list_run page_of_def nodes_ordered_def non_increasing_slice
        sorted_descending_numeric numeric_strings_filter)
  show "numeric_strings staker_field (to_string (q ''sortBy'')) (stakers d) \<Longrightarrow>
           \<exists>r. stakers_list q d = (Ok r, d)
             \<and> non_increasing (map (parsed staker_field (to_string (q ''sortBy''))) (data r))"
    using t so
    by (simp add: stakers_list_run page_of_def stakers_ordered_def non_increasing_slice
        sorted_descending_numeric numeric_strings_filter)
  show "numeric_strings transaction_field (to_string (q ''sortBy'')) (transactions d) \<Longrightarrow>
           string_params q [''txType'', ''status'', ''address''] \<Longrightarrow>
           \<exists>r. transactions_list q d = (Ok r, d)
             \<and> non_increasing (map (parsed transaction_field (to_string (q ''sortBy''))) (data r))"
    using t so k
    by (simp add: transactions_list_run page_of_def transactions_ordered_def non_increasing_slice
        sorted_descending_numeric numeric_strings_filter)
qed

text \<open>
  C2 at the failing request: \<open>GET /health-records?sortBy=value&sortOrder=desc\<close> on the
  records with the values \<open>100.0\<close> and \<open>92.5\<close> answers with \<open>92.5\<close> before \<open>100.0\<close>,
  which increases; the stakers with the same two amounts come out in descending order.
\<close>

theorem health_values_sorted_as_strings:
  "descending_request sort_by_value_query
   \<and> numeric_strings health_record_field ''value'' (healthRecords example_db)
   \<and> fst (health_records_list sort_by_value_query example_db)
       = Ok \<lparr>data = [example_record ''REC-00000002'' ''92.5'', example_record ''REC-00000001'' ''100.0''],
              pagination = \<lparr>p_page = 1, p_limit = 20, p_totalItems = 2, p_totalPages = 1,
                            p_hasMore = False\<rparr>\<rparr>
   \<and> map (parsed health_record_field ''value'')
        [example_record ''REC-00000002'' ''92.5'', example_record ''REC-00000001'' ''100.0'']
       = [185 / 2, 100]
   \<and> \<not> non_increasing [185 / 2, 100]
   \<and> fst (stakers_list sort_by_stake_query example_db)
       = Ok \<lparr>data = [example_staker ''STAKER-0000001'' ''100.500000'' ''NODE-000001'',
                      example_staker ''STAKER-0000002'' ''92.500000'' ''NODE-000002''],
              pagination = \<lparr>p_page = 1, p_limit = 20, p_totalItems = 2, p_totalPages = 1,
                            p_hasMore = False\<rparr>\<rparr>"
proof -
  have a: "descending_request sort_by_value_query" by code_simp
  have b: "numeric_strings health_record_field ''value'' (healthRecords example_db)" by code_simp
  have c: "fst (health_records_list sort_by_value_query example_db)
       = Ok \<lparr>data = [example_record ''REC-00000002'' ''92.5'', example_record ''REC-00000001'' ''100.0''],
              pagination = \<lparr>p_page = 1, p_limit = 20, p_totalItems = 2, p_totalPages = 1,
                            p_hasMore = False\<rparr>\<rparr>"
    by code_simp
  have e: "map (parsed health_record_field ''value'')
        [example_record ''REC-00000002'' ''92.5'', example_record ''REC-00000001'' ''100.0'']
       = [185 / 2, 100]"
    by code_simp
  have f: "\<not> non_increasing [185 / 2, 100]" by (simp add: non_increasing_def)
  have g: "fst (stakers_list sort_by_stake_query example_db)
       = Ok \<lparr>data = [example_staker ''STAKER-0000001'' ''100.500000'' ''NODE-000001'',
                      example_staker ''STAKER-0000002'' ''92.500000'' ''NODE-000002''],
              pagination = \<lparr>p_page = 1, p_limit = 20, p_totalItems = 2, p_totalPages = 1,
                            p_hasMore = False\<rparr>\<rparr>"
    unfolding stakers_list_run by code_simp
  from a b c e f g show ?thesis by blast
qed

section \<open>Printing and reading decimals\<close>























section \<open>The validations of a generated node\<close>







section \<open>The network health score\<close>

lemma stats_network_health:
  assumes "epochs d \<noteq> []"
  shows "\<exists>r. stats d = (Ok r, d)
           \<and> sn_networkHealth (ps_network r) =
               toFixed (num_div
                 (num_add
                    (num_add
                       (num_div (sum_num (\<lambda>n. parseFloat (n_uptime n)) (nodes d))
                          (num_of_int (int (length (nodes d)))))
                       (num_mul (num_div (num_of_int (count_where (\<lambda>r. hr_validationStatus r = ''VALIDATED'') (healthRecords d)))
                                   (num_of_int (int (length (healthRecords d))))) (Some 100)))
                    (num_mul (num_div (num_of_int (count_where (\<lambda>n. n_status n = ''ACTIVE'') (nodes d)))
                                (num_of_int (int (length (nodes d))))) (Some 100)))
                 (Some 3)) 1"
proof -
  obtain e es where es: "epochs d = e # es" using assms by (cases "epochs d") auto
  show ?thesis
    unfolding stats_def Let_def nodes_ref_def stakers_ref_def healthRecords_ref_def epochs_ref_def
      transactions_ref_def arr_get_Global
    by (simp add: try_catch_def js_bind_def js_return_def js_lift_def reduce1_def es)
qed














text \<open>Without a node the three signals are not numbers, and without an epoch the request
  fails.\<close>

lemma network_health_without_nodes:
  "network_health_of (fst (stats (without_nodes example_db))) = Some ''NaN''"
proof -
  have n: "epochs (without_nodes example_db) \<noteq> []" by (simp add: example_db_def without_nodes_def)
  have nd: "nodes (without_nodes example_db) = []" by (simp add: without_nodes_def)
  from stats_network_health[OF n] obtain r where
    "stats (without_nodes example_db) = (Ok r, without_nodes example_db)"
    "sn_networkHealth (ps_network r) = ''NaN''"
    unfolding nd by (auto simp: sum_num_def num_div_def num_of_int_def num_add_def num_mul_def
        count_where_def toFixed_def)
  then show ?thesis by (simp add: network_health_of_def)
qed

lemma stats_without_epochs:
  "fst (stats (without_epochs d)) = Fail 500 ''Failed to fetch platform stats''"
  unfolding stats_def Let_def nodes_ref_def stakers_ref_def healthRecords_ref_def epochs_ref_def
    transactions_ref_def arr_get_Global
  by (simp add: try_catch_def js_bind_def js_return_def js_lift_def js_throw_def reduce1_def
      without_epochs_def)


end
